theory Spec2Isabelle
  imports Complex_Main "HOL-Library.AList"
begin

section \<open>Python values\<close>

text \<open>
  The engine is Python. A \<open>str\<close> is modelled as a \<open>string\<close> whose characters are the
  code points below 256 (all literals of the source are Latin-1; an accented letter is
  written \<open>CHR 0xE9\<close>). A \<open>float\<close> is modelled as a \<open>real\<close>: the code only compares
  measurements with thresholds, and a comparison of two floats is exact. A \<open>dict\<close> is an
  association list in insertion order with distinct keys.
\<close>

datatype exn =
    JSONDecodeError | AttributeError | TypeError | KeyError | ValueError
  | ValidationError | IntegrityError | OverflowError | RecursionError | OtherError

text \<open>\<open>d.get(k, default)\<close> on a dict held as a map.\<close>

definition get_default :: "('k \<rightharpoonup> 'v) \<Rightarrow> 'k \<Rightarrow> 'v \<Rightarrow> 'v" where
  "get_default d k dflt = (case d k of None \<Rightarrow> dflt | Some v \<Rightarrow> v)"

text \<open>
  What \<open>json.loads\<close> returns, and what the engine passes around as \<open>Dict[str, Any]\<close>:
  \<open>None\<close>, a bool, an int, a float, a str, a list or a dict with string keys (in
  insertion order).
\<close>

datatype json =
    JNull
  | JBool bool
  | JInt int
  | JFloat real
  | JStr string
  | JArr "json list"
  | JObj "(string \<times> json) list"

text \<open>Python's truth value of an object, as tested by \<open>if x:\<close> and \<open>not x\<close>.\<close>

fun truthy :: "json \<Rightarrow> bool" where
  "truthy JNull = False"
| "truthy (JBool b) = b"
| "truthy (JInt n) = (n \<noteq> 0)"
| "truthy (JFloat x) = (x \<noteq> 0)"
| "truthy (JStr s) = (s \<noteq> [])"
| "truthy (JArr xs) = (xs \<noteq> [])"
| "truthy (JObj kvs) = (kvs \<noteq> [])"

text \<open>
  Number formatting and parsing are Python's own and are parameters of the model:
  \<open>str(x)\<close> of a float inside an f-string, the \<open>:.2f\<close> format, \<open>str(v)\<close> of a value
  that is not a string, and \<open>int(s)\<close> of a string (\<open>None\<close> where it raises
  \<open>ValueError\<close>).
\<close>

record py_builtins =
  str_float :: "real \<Rightarrow> string"
  fmt_2f :: "real \<Rightarrow> string"
  str_json :: "json \<Rightarrow> string"
  int_str :: "string \<Rightarrow> int option"

section \<open>Data model (ingestion/models.py)\<close>

record InfrastructureMetrics =
  metrics_id :: nat
  cpu_usage :: real
  memory_usage :: real
  latency_ms :: real
  disk_usage :: real
  network_in_kbps :: real
  network_out_kbps :: real
  io_wait :: real
  thread_count :: int
  active_connections :: int
  error_rate :: real
  uptime_seconds :: int
  temperature_celsius :: real
  power_consumption_watts :: real
  service_status :: "(string \<times> string) list"
  is_anomalous :: bool
  analysis_completed :: bool

definition degraded_states :: "string list" where
  "degraded_states = [''degraded'', ''offline'', ''error'']"

definition has_degraded_services :: "InfrastructureMetrics \<Rightarrow> bool" where
  "has_degraded_services m =
     (if service_status m = [] then False
      else list_ex (\<lambda>status. status \<in> set degraded_states) (map snd (service_status m)))"

section \<open>Threshold detector (analysis/services/classic/detector.py)\<close>

text \<open>
  \<open>__init__\<close>: the thresholds are the \<open>ANOMALY_THRESHOLDS\<close> setting when the settings
  define it, else the built-in table.
\<close>

definition default_thresholds :: "string \<rightharpoonup> real" where
  "default_thresholds = map_of
     [(''cpu_usage'', 80), (''memory_usage'', 85), (''latency_ms'', 500),
      (''disk_usage'', 90), (''io_wait'', 20), (''error_rate'', 5 / 100),
      (''temperature_celsius'', 75), (''power_consumption_watts'', 400)]"

definition init_thresholds :: "(string \<rightharpoonup> real) option \<Rightarrow> (string \<rightharpoonup> real)" where
  "init_thresholds setting = (case setting of None \<Rightarrow> default_thresholds | Some t \<Rightarrow> t)"

definition detect_anomalies :: "(string \<rightharpoonup> real) \<Rightarrow> InfrastructureMetrics \<Rightarrow> (string \<times> bool) list" where
  "detect_anomalies thresholds metrics =
     (let cpu_threshold = get_default thresholds ''cpu_usage'' 80;
          memory_threshold = get_default thresholds ''memory_usage'' 85;
          latency_threshold = get_default thresholds ''latency_ms'' 500;
          disk_threshold = get_default thresholds ''disk_usage'' 90;
          io_threshold = get_default thresholds ''io_wait'' 20;
          error_threshold = get_default thresholds ''error_rate'' (5 / 100);
          temp_threshold = get_default thresholds ''temperature_celsius'' 75;
          power_threshold = get_default thresholds ''power_consumption_watts'' 400
      in [(''cpu_anomaly'', cpu_usage metrics > cpu_threshold),
          (''memory_anomaly'', memory_usage metrics > memory_threshold),
          (''latency_anomaly'', latency_ms metrics > latency_threshold),
          (''disk_anomaly'', disk_usage metrics > disk_threshold),
          (''io_anomaly'', io_wait metrics > io_threshold),
          (''error_rate_anomaly'', error_rate metrics > error_threshold),
          (''temperature_anomaly'', temperature_celsius metrics > temp_threshold),
          (''power_anomaly'', power_consumption_watts metrics > power_threshold),
          (''service_anomaly'', has_degraded_services metrics)])"

definition weights :: "(string \<times> int) list" where
  "weights =
     [(''cpu_anomaly'', 2), (''memory_anomaly'', 2), (''disk_anomaly'', 3),
      (''latency_anomaly'', 2), (''io_anomaly'', 1), (''error_rate_anomaly'', 3),
      (''temperature_anomaly'', 2), (''power_anomaly'', 1), (''service_anomaly'', 3)]"

text \<open>One pass of the loop \<open>for anomaly_type, detected in anomalies.items()\<close>.\<close>

definition score_step :: "string \<times> bool \<Rightarrow> int \<Rightarrow> int" where
  "score_step item score =
     (case map_of weights (fst item) of
        Some w \<Rightarrow> (if snd item then score + w else score)
      | None \<Rightarrow> score)"

definition calculate_severity_score :: "(string \<times> bool) list \<Rightarrow> int" where
  "calculate_severity_score anomalies = min (fold score_step anomalies 0) 10"

text \<open>
  The score as the specification words it: a flag counts when the dictionary maps its
  name to true; disk, error-rate and service weigh 3, cpu, memory, latency and
  temperature 2, io and power 1; the sum is capped at 10.
\<close>

definition flag_on :: "(string \<times> bool) list \<Rightarrow> string \<Rightarrow> int" where
  "flag_on anomalies name = (if map_of anomalies name = Some True then 1 else 0)"

definition spec_score :: "(string \<times> bool) list \<Rightarrow> int" where
  "spec_score a =
     min 10
       (3 * (flag_on a ''disk_anomaly'' + flag_on a ''error_rate_anomaly''
             + flag_on a ''service_anomaly'')
        + 2 * (flag_on a ''cpu_anomaly'' + flag_on a ''memory_anomaly''
               + flag_on a ''latency_anomaly'' + flag_on a ''temperature_anomaly'')
        + 1 * (flag_on a ''io_anomaly'' + flag_on a ''power_anomaly''))"

definition all_nine_true :: "(string \<times> bool) list \<Rightarrow> bool" where
  "all_nine_true a = list_all (\<lambda>name. map_of a name = Some True) (map fst weights)"

text \<open>A snapshot whose eight measured values sit exactly on their thresholds.\<close>

definition at_thresholds :: "(string \<rightharpoonup> real) \<Rightarrow> InfrastructureMetrics \<Rightarrow> InfrastructureMetrics" where
  "at_thresholds thr m =
     m\<lparr>cpu_usage := get_default thr ''cpu_usage'' 80,
       memory_usage := get_default thr ''memory_usage'' 85,
       latency_ms := get_default thr ''latency_ms'' 500,
       disk_usage := get_default thr ''disk_usage'' 90,
       io_wait := get_default thr ''io_wait'' 20,
       error_rate := get_default thr ''error_rate'' (5 / 100),
       temperature_celsius := get_default thr ''temperature_celsius'' 75,
       power_consumption_watts := get_default thr ''power_consumption_watts'' 400\<rparr>"

definition numeric_flags :: "string list" where
  "numeric_flags =
     [''cpu_anomaly'', ''memory_anomaly'', ''latency_anomaly'', ''disk_anomaly'',
      ''io_anomaly'', ''error_rate_anomaly'', ''temperature_anomaly'', ''power_anomaly'']"

section \<open>Rule-based recommendation generator (recommendations/services/classic/generator.py)\<close>

text \<open>
  A recommendation is a dict with the four keys \<open>title\<close>, \<open>description\<close>, \<open>priority\<close> and
  \<open>category\<close>; a rule holds two thresholds and the canned recommendation of each tier.
\<close>

record action =
  title :: string
  description :: string
  priority :: string
  category :: string

record tier_rule =
  high_threshold :: real
  critical_threshold :: real
  recommendations_high :: action
  recommendations_critical :: action

definition rules_cpu :: tier_rule where
  "rules_cpu =
     \<lparr>high_threshold = 80, critical_threshold = 95,
      recommendations_high =
        \<lparr>title = ''Optimisation CPU'',
         description = (''Usage CPU '' @ [CHR 0xE9] @ ''lev'' @ [CHR 0xE9] @ '' d'' @ [CHR 0xE9] @ ''tect'' @ [CHR 0xE9] @ ''. Consid'' @ [CHR 0xE9] @ ''rer l'' @ [CHR 0x27] @ ''ajout de ressources ou l'' @ [CHR 0x27] @ ''optimisation des processus.''),
         priority = ''high'',
         category = ''performance''\<rparr>,
      recommendations_critical =
        \<lparr>title = (''CPU critique - Action imm'' @ [CHR 0xE9] @ ''diate''),
         description = (''Usage CPU critique. Intervention imm'' @ [CHR 0xE9] @ ''diate requise pour '' @ [CHR 0xE9] @ ''viter la d'' @ [CHR 0xE9] @ ''gradation.''),
         priority = ''critical'',
         category = ''performance''\<rparr>\<rparr>"

definition rules_memory :: tier_rule where
  "rules_memory =
     \<lparr>high_threshold = 85, critical_threshold = 95,
      recommendations_high =
        \<lparr>title = (''Gestion m'' @ [CHR 0xE9] @ ''moire''),
         description = (''Usage m'' @ [CHR 0xE9] @ ''moire '' @ [CHR 0xE9] @ ''lev'' @ [CHR 0xE9] @ ''. Augmenter la RAM disponible ou optimiser l'' @ [CHR 0x27] @ ''utilisation.''),
         priority = ''high'',
         category = ''resources''\<rparr>,
      recommendations_critical =
        \<lparr>title = (''M'' @ [CHR 0xE9] @ ''moire critique''),
         description = (''Risque d'' @ [CHR 0x27] @ [CHR 0xE9] @ ''puisement m'' @ [CHR 0xE9] @ ''moire. Extension imm'' @ [CHR 0xE9] @ ''diate de la RAM recommand'' @ [CHR 0xE9] @ ''e.''),
         priority = ''critical'',
         category = ''resources''\<rparr>\<rparr>"

definition rules_disk :: tier_rule where
  "rules_disk =
     \<lparr>high_threshold = 85, critical_threshold = 95,
      recommendations_high =
        \<lparr>title = ''Gestion espace disque'',
         description = (''Espace disque r'' @ [CHR 0xE9] @ ''duit. Nettoyer les fichiers temporaires et planifier l'' @ [CHR 0x27] @ ''extension.''),
         priority = ''high'',
         category = ''storage''\<rparr>,
      recommendations_critical =
        \<lparr>title = ''Espace disque critique'',
         description = (''Risque de saturation disque. Extension ou nettoyage imm'' @ [CHR 0xE9] @ ''diat requis.''),
         priority = ''critical'',
         category = ''storage''\<rparr>\<rparr>"

definition rules_latency :: tier_rule where
  "rules_latency =
     \<lparr>high_threshold = 300, critical_threshold = 1000,
      recommendations_high =
        \<lparr>title = ''Optimisation latence'',
         description = (''Latence '' @ [CHR 0xE9] @ ''lev'' @ [CHR 0xE9] @ ''e d'' @ [CHR 0xE9] @ ''tect'' @ [CHR 0xE9] @ ''e. Optimiser les requ'' @ [CHR 0xEA] @ ''tes et connexions r'' @ [CHR 0xE9] @ ''seau.''),
         priority = ''medium'',
         category = ''network''\<rparr>,
      recommendations_critical =
        \<lparr>title = ''Latence critique'',
         description = (''Latence excessive impactant les utilisateurs. Investigation r'' @ [CHR 0xE9] @ ''seau urgente.''),
         priority = ''critical'',
         category = ''network''\<rparr>\<rparr>"

definition rules_temperature :: tier_rule where
  "rules_temperature =
     \<lparr>high_threshold = 70, critical_threshold = 80,
      recommendations_high =
        \<lparr>title = ''Gestion thermique'',
         description = (''Temp'' @ [CHR 0xE9] @ ''rature '' @ [CHR 0xE9] @ ''lev'' @ [CHR 0xE9] @ ''e. V'' @ [CHR 0xE9] @ ''rifier la ventilation et l'' @ [CHR 0x27] @ ''environnement.''),
         priority = ''medium'',
         category = ''hardware''\<rparr>,
      recommendations_critical =
        \<lparr>title = ''Surchauffe critique'',
         description = (''Risque de surchauffe. Arr'' @ [CHR 0xEA] @ ''t pr'' @ [CHR 0xE9] @ ''ventif et inspection du refroidissement requis.''),
         priority = ''critical'',
         category = ''hardware''\<rparr>\<rparr>"

definition analyze_cpu :: "py_builtins \<Rightarrow> real \<Rightarrow> action option" where
  "analyze_cpu fmt cpu_usage' =
     (let rules = rules_cpu in
      if cpu_usage' \<ge> critical_threshold rules then
        (let r = recommendations_critical rules
         in Some (r\<lparr>description := (''CPU '' @ [CHR 0xE0] @ '' '') @ str_float fmt cpu_usage' @ ''%. '' @ description r\<rparr>))
      else if cpu_usage' \<ge> high_threshold rules then
        (let r = recommendations_high rules
         in Some (r\<lparr>description := (''CPU '' @ [CHR 0xE0] @ '' '') @ str_float fmt cpu_usage' @ ''%. '' @ description r\<rparr>))
      else None)"

definition analyze_memory :: "py_builtins \<Rightarrow> real \<Rightarrow> action option" where
  "analyze_memory fmt memory_usage' =
     (let rules = rules_memory in
      if memory_usage' \<ge> critical_threshold rules then
        (let r = recommendations_critical rules
         in Some (r\<lparr>description := (''M'' @ [CHR 0xE9] @ ''moire '' @ [CHR 0xE0] @ '' '') @ str_float fmt memory_usage' @ ''%. '' @ description r\<rparr>))
      else if memory_usage' \<ge> high_threshold rules then
        (let r = recommendations_high rules
         in Some (r\<lparr>description := (''M'' @ [CHR 0xE9] @ ''moire '' @ [CHR 0xE0] @ '' '') @ str_float fmt memory_usage' @ ''%. '' @ description r\<rparr>))
      else None)"

definition analyze_disk :: "py_builtins \<Rightarrow> real \<Rightarrow> action option" where
  "analyze_disk fmt disk_usage' =
     (let rules = rules_disk in
      if disk_usage' \<ge> critical_threshold rules then
        (let r = recommendations_critical rules
         in Some (r\<lparr>description := (''Disque '' @ [CHR 0xE0] @ '' '') @ str_float fmt disk_usage' @ ''%. '' @ description r\<rparr>))
      else if disk_usage' \<ge> high_threshold rules then
        (let r = recommendations_high rules
         in Some (r\<lparr>description := (''Disque '' @ [CHR 0xE0] @ '' '') @ str_float fmt disk_usage' @ ''%. '' @ description r\<rparr>))
      else None)"

definition analyze_latency :: "py_builtins \<Rightarrow> real \<Rightarrow> action option" where
  "analyze_latency fmt latency_ms' =
     (let rules = rules_latency in
      if latency_ms' \<ge> critical_threshold rules then
        (let r = recommendations_critical rules
         in Some (r\<lparr>description := ''Latence '' @ str_float fmt latency_ms' @ ''ms. '' @ description r\<rparr>))
      else if latency_ms' \<ge> high_threshold rules then
        (let r = recommendations_high rules
         in Some (r\<lparr>description := ''Latence '' @ str_float fmt latency_ms' @ ''ms. '' @ description r\<rparr>))
      else None)"

definition analyze_temperature :: "py_builtins \<Rightarrow> real \<Rightarrow> action option" where
  "analyze_temperature fmt temperature =
     (let rules = rules_temperature in
      if temperature \<ge> critical_threshold rules then
        (let r = recommendations_critical rules
         in Some (r\<lparr>description := (''Temp'' @ [CHR 0xE9] @ ''rature '') @ str_float fmt temperature @ ([CHR 0xB0] @ ''C. '') @ description r\<rparr>))
      else if temperature \<ge> high_threshold rules then
        (let r = recommendations_high rules
         in Some (r\<lparr>description := (''Temp'' @ [CHR 0xE9] @ ''rature '') @ str_float fmt temperature @ ([CHR 0xB0] @ ''C. '') @ description r\<rparr>))
      else None)"

text \<open>\<open>sep.join(xs)\<close> on a list of strings.\<close>

fun join :: "string \<Rightarrow> string list \<Rightarrow> string" where
  "join sep [] = []"
| "join sep [x] = x"
| "join sep (x # y # ys) = x @ sep @ join sep (y # ys)"

definition degraded_services :: "InfrastructureMetrics \<Rightarrow> string list" where
  "degraded_services metrics =
     map fst (filter (\<lambda>item. snd item \<in> set degraded_states) (service_status metrics))"

definition analyze_services :: "InfrastructureMetrics \<Rightarrow> action option" where
  "analyze_services metrics =
     (if has_degraded_services metrics then
        Some \<lparr>title = (''Services d'' @ [CHR 0xE9] @ ''grad'' @ [CHR 0xE9] @ ''s d'' @ [CHR 0xE9] @ ''tect'' @ [CHR 0xE9] @ ''s''),
              description = (''Services en '' @ [CHR 0xE9] @ ''tat d'' @ [CHR 0xE9] @ ''grad'' @ [CHR 0xE9] @ '': '')
                 @ join '', '' (take 3 (degraded_services metrics))
                 @ (''. Red'' @ [CHR 0xE9] @ ''marrage ou investigation requise.''),
              priority = ''high'',
              category = ''services''\<rparr>
      else None)"

text \<open>
  \<open>error_rate * 100\<close> is computed here in exact arithmetic; the float product can differ
  from it in the last digit, which matters only for rates at a tier boundary.
\<close>

definition analyze_errors :: "py_builtins \<Rightarrow> real \<Rightarrow> action option" where
  "analyze_errors fmt error_rate' =
     (let error_percentage = error_rate' * 100 in
      if error_percentage > 5 then
        Some \<lparr>title = (''Taux d'' @ [CHR 0x27] @ ''erreur '' @ [CHR 0xE9] @ ''lev'' @ [CHR 0xE9]),
              description = (''Taux d'' @ [CHR 0x27] @ ''erreur de '') @ fmt_2f fmt error_percentage
                 @ (''%. Investigation des logs et correction des erreurs recommand'' @ [CHR 0xE9] @ ''e.''),
              priority = ''high'',
              category = ''reliability''\<rparr>
      else if error_percentage > 1 then
        Some \<lparr>title = ''Surveillance des erreurs'',
              description = (''Taux d'' @ [CHR 0x27] @ ''erreur de '') @ fmt_2f fmt error_percentage
                 @ (''%. Monitoring renforc'' @ [CHR 0xE9] @ '' recommand'' @ [CHR 0xE9] @ ''.''),
              priority = ''medium'',
              category = ''reliability''\<rparr>
      else None)"

definition priority_order :: "string list" where
  "priority_order = [''low'', ''medium'', ''high'', ''critical'']"

text \<open>\<open>xs.index(x)\<close>, used only under the guard \<open>x in xs\<close>.\<close>

fun index_of :: "'a list \<Rightarrow> 'a \<Rightarrow> nat" where
  "index_of [] x = 0"
| "index_of (y # ys) x = (if x = y then 0 else Suc (index_of ys x))"

definition priority_idx :: "string \<Rightarrow> nat" where
  "priority_idx p = (if p \<in> set priority_order then index_of priority_order p else 0)"

definition update_priority :: "string \<Rightarrow> string \<Rightarrow> string" where
  "update_priority current new =
     (let current_idx = priority_idx current;
          new_idx = priority_idx new
      in priority_order ! max current_idx new_idx)"

text \<open>\<open>str(n)\<close> of a count.\<close>

function str_nat :: "nat \<Rightarrow> string" where
  "str_nat n = (if n < 10 then [char_of (48 + n)]
                else str_nat (n div 10) @ [char_of (48 + n mod 10)])"
  by pat_completeness auto
termination
  by (relation "measure id") auto

record response =
  executive_summary :: string
  detailed_analysis :: string
  recommendations :: "action list"
  priority_level :: string
  estimated_impact :: string
  implementation_timeframe :: string

definition timeframe_map :: "string \<rightharpoonup> string" where
  "timeframe_map = map_of
     [(''critical'', (''Imm'' @ [CHR 0xE9] @ ''diat (< 4h)'')), (''high'', ''1-3 jours''),
      (''medium'', ''1-2 semaines''), (''low'', ''1 mois'')]"

definition build_response :: "action list \<Rightarrow> string \<Rightarrow> string \<Rightarrow> response" where
  "build_response recs prio anomalies_summary =
     (let rec_count = length recs;
          critical_count = length (filter (\<lambda>r. priority r = ''critical'') recs);
          exec_summary =
            (if critical_count > 0 then
               ''Analyse critique: '' @ str_nat critical_count @ ('' probl'' @ [CHR 0xE8] @ ''mes critiques parmi '')
                 @ str_nat rec_count @ ('' recommandations. Action imm'' @ [CHR 0xE9] @ ''diate requise.'')
             else if prio = ''high'' then
               ''Attention: '' @ str_nat rec_count
                 @ ('' recommandations prioritaires identifi'' @ [CHR 0xE9] @ ''es pour optimiser l'' @ [CHR 0x27] @ ''infrastructure.'')
             else
               ''Analyse de '' @ str_nat rec_count
                 @ ('' points d'' @ [CHR 0x27] @ ''am'' @ [CHR 0xE9] @ ''lioration identifi'' @ [CHR 0xE9] @ ''s pour maintenir la performance.''));
          analysis =
            (''Analyse bas'' @ [CHR 0xE9] @ ''e sur les r'' @ [CHR 0xE8] @ ''gles m'' @ [CHR 0xE9] @ ''tier pr'' @ [CHR 0xE9] @ ''d'' @ [CHR 0xE9] @ ''finies. Anomalies d'' @ [CHR 0xE9] @ ''tect'' @ [CHR 0xE9] @ ''es: '')
              @ (if anomalies_summary \<noteq> [] then anomalies_summary else ''Aucune anomalie majeure'')
              @ ''. ''
              @ (''Les m'' @ [CHR 0xE9] @ ''triques r'' @ [CHR 0xE9] @ ''v'' @ [CHR 0xE8] @ ''lent '') @ str_nat rec_count
              @ ('' axes d'' @ [CHR 0x27] @ ''am'' @ [CHR 0xE9] @ ''lioration r'' @ [CHR 0xE9] @ ''partis sur plusieurs cat'' @ [CHR 0xE9] @ ''gories syst'' @ [CHR 0xE8] @ ''me.'')
      in \<lparr>executive_summary = exec_summary,
          detailed_analysis = analysis,
          recommendations = recs,
          priority_level = prio,
          estimated_impact = (''Am'' @ [CHR 0xE9] @ ''lioration de la stabilit'' @ [CHR 0xE9] @ '' et des performances syst'' @ [CHR 0xE8] @ ''me''),
          implementation_timeframe = get_default timeframe_map prio ''1-2 semaines''\<rparr>)"

text \<open>
  The block repeated after each analysis: \<open>if rec: recommendations.append(rec);
  priority_level = self._update_priority(priority_level, rec['priority'])\<close>.
\<close>

definition add_rec :: "action option \<Rightarrow> action list \<times> string \<Rightarrow> action list \<times> string" where
  "add_rec r st =
     (case r of
        None \<Rightarrow> st
      | Some a \<Rightarrow> (fst st @ [a], update_priority (snd st) (priority a)))"

definition monitoring_action :: action where
  "monitoring_action =
     \<lparr>title = ''Surveillance continue'',
      description = (''Infrastructure stable. Maintenir la surveillance proactive des m'' @ [CHR 0xE9] @ ''triques.''),
      priority = ''low'',
      category = ''monitoring''\<rparr>"

text \<open>
  The body of \<open>generate_recommendations\<close>: the seven analyses in the order of the source
  (CPU, memory, disk, latency, temperature, services, errors), starting from no
  recommendation and priority low; then the monitoring action when nothing fired.
\<close>

definition fired_rules :: "py_builtins \<Rightarrow> InfrastructureMetrics \<Rightarrow> action list \<times> string" where
  "fired_rules fmt metrics =
     (add_rec (analyze_errors fmt (error_rate metrics))
     (add_rec (analyze_services metrics)
     (add_rec (analyze_temperature fmt (temperature_celsius metrics))
     (add_rec (analyze_latency fmt (latency_ms metrics))
     (add_rec (analyze_disk fmt (disk_usage metrics))
     (add_rec (analyze_memory fmt (memory_usage metrics))
     (add_rec (analyze_cpu fmt (cpu_usage metrics))
        ([], ''low''))))))))"

definition generate_recommendations ::
  "py_builtins \<Rightarrow> InfrastructureMetrics \<Rightarrow> string \<Rightarrow> response" where
  "generate_recommendations fmt metrics anomalies_summary =
     (let st = fired_rules fmt metrics;
          recs = (if fst st = [] then [monitoring_action] else fst st)
      in build_response recs (snd st) anomalies_summary)"

text \<open>The actions of a report that come from the CPU rule, recognised by their titles.\<close>

definition is_cpu_action :: "action \<Rightarrow> bool" where
  "is_cpu_action a =
     (title a = title (recommendations_high rules_cpu)
      \<or> title a = title (recommendations_critical rules_cpu))"

definition opt_list :: "'a option \<Rightarrow> 'a list" where
  "opt_list r = (case r of None \<Rightarrow> [] | Some a \<Rightarrow> [a])"

section \<open>Response robustness layer (infrastructure_optimization/core/services/azure_openai.py)\<close>

definition startswith :: "string \<Rightarrow> string \<Rightarrow> bool" where
  "startswith s p = (take (length p) s = p)"

definition endswith :: "string \<Rightarrow> string \<Rightarrow> bool" where
  "endswith s p = (length p \<le> length s \<and> drop (length s - length p) s = p)"

text \<open>
  \<open>str.strip()\<close> removes the characters for which \<open>str.isspace\<close> holds; among the
  code points below 256 these are 9 to 13, 28 to 32, 133 and 160.
\<close>

definition isspace :: "char \<Rightarrow> bool" where
  "isspace c =
     (let n = (of_char c :: nat)
      in (9 \<le> n \<and> n \<le> 13) \<or> (28 \<le> n \<and> n \<le> 32) \<or> n = 133 \<or> n = 160)"

definition strip :: "string \<Rightarrow> string" where
  "strip s = rev (dropWhile isspace (rev (dropWhile isspace s)))"

definition clean_response :: "string \<Rightarrow> string" where
  "clean_response response =
     (let r1 = (if startswith response ([CHR 0x60, CHR 0x60, CHR 0x60] @ ''json'') then drop 7 response
                else if startswith response [CHR 0x60, CHR 0x60, CHR 0x60] then drop 3 response
                else if startswith response ''json'' then drop 4 response
                else response);
          r2 = (if endswith r1 [CHR 0x60, CHR 0x60, CHR 0x60] then take (length r1 - 3) r1 else r1)
      in strip r2)"

text \<open>\<open>text.find(c)\<close> and \<open>text.rfind(c)\<close>: the first and the last index of \<open>c\<close>, or -1.\<close>

fun find_from :: "char \<Rightarrow> string \<Rightarrow> int \<Rightarrow> int" where
  "find_from c [] i = -1"
| "find_from c (x # xs) i = (if x = c then i else find_from c xs (i + 1))"

fun rfind_from :: "char \<Rightarrow> string \<Rightarrow> int \<Rightarrow> int \<Rightarrow> int" where
  "rfind_from c [] i found = found"
| "rfind_from c (x # xs) i found = rfind_from c xs (i + 1) (if x = c then i else found)"

definition find :: "string \<Rightarrow> char \<Rightarrow> int" where
  "find text c = find_from c text 0"

definition rfind :: "string \<Rightarrow> char \<Rightarrow> int" where
  "rfind text c = rfind_from c text 0 (-1)"

text \<open>\<open>text[i:j]\<close> for indices that are not negative.\<close>

definition slice :: "string \<Rightarrow> int \<Rightarrow> int \<Rightarrow> string" where
  "slice text i j = take (nat (j - i)) (drop (nat i) text)"

definition default_structure :: json where
  "default_structure =
     JObj
       [(''executive_summary'', JStr (''Recommandations g'' @ [CHR 0xE9] @ ''n'' @ [CHR 0xE9] @ ''r'' @ [CHR 0xE9] @ ''es par analyse LLM.'')),
        (''detailed_analysis'', JStr (''Analyse d'' @ [CHR 0xE9] @ ''taill'' @ [CHR 0xE9] @ ''e des m'' @ [CHR 0xE9] @ ''triques syst'' @ [CHR 0xE8] @ ''me.'')),
        (''recommendations'', JArr []),
        (''priority_level'', JStr (''medium'')),
        (''estimated_impact'', JStr (''Am'' @ [CHR 0xE9] @ ''lioration des performances syst'' @ [CHR 0xE8] @ ''me'')),
        (''implementation_timeframe'', JStr (''1-2 semaines''))]"

definition default_structure_extraction :: json where
  "default_structure_extraction =
     JObj
       [(''executive_summary'', JStr (''Recommandations g'' @ [CHR 0xE9] @ ''n'' @ [CHR 0xE9] @ ''r'' @ [CHR 0xE9] @ ''es par analyse LLM.'')),
        (''detailed_analysis'', JStr (''Analyse d'' @ [CHR 0xE9] @ ''taill'' @ [CHR 0xE9] @ ''e des m'' @ [CHR 0xE9] @ ''triques syst'' @ [CHR 0xE8] @ ''me. Analyse cibl'' @ [CHR 0xE9] @ ''e services incluse.'')),
        (''recommendations'', JArr []),
        (''priority_level'', JStr (''medium'')),
        (''estimated_impact'', JStr (''Am'' @ [CHR 0xE9] @ ''lioration des performances syst'' @ [CHR 0xE8] @ ''me'')),
        (''implementation_timeframe'', JStr (''1-2 semaines''))]"

text \<open>
  \<open>json.loads\<close> is the standard library's parser; it is a parameter \<open>loads\<close> that
  returns the parsed value or the exception it raised.
\<close>

definition extract_json_from_text :: "(string \<Rightarrow> exn + json) \<Rightarrow> string \<Rightarrow> exn + json" where
  "extract_json_from_text loads text =
     (let start_idx = find text (CHR ''{'');
          end_idx = rfind text (CHR ''}'') + 1
      in if start_idx = -1 \<or> end_idx = 0 then Inl JSONDecodeError
         else
           (let json_part = slice text start_idx end_idx
            in case loads json_part of
                 Inr j \<Rightarrow> Inr j
               | Inl JSONDecodeError \<Rightarrow> Inr default_structure_extraction
               | Inl e \<Rightarrow> Inl e))"

definition parse_json_response :: "(string \<Rightarrow> exn + json) \<Rightarrow> string \<Rightarrow> exn + json" where
  "parse_json_response loads response =
     (case loads (clean_response response) of
        Inr j \<Rightarrow> Inr j
      | Inl JSONDecodeError \<Rightarrow>
          (case extract_json_from_text loads response of
             Inr j \<Rightarrow> Inr j
           | Inl e \<Rightarrow> Inr default_structure)
      | Inl e \<Rightarrow> Inl e)"

text \<open>
  The specification's words for the second tier: the substring from the first opening
  brace to the last closing brace.
\<close>

definition spec_between_braces :: "string \<Rightarrow> string" where
  "spec_between_braces text =
     rev (dropWhile (\<lambda>c. c \<noteq> CHR ''}'') (rev (dropWhile (\<lambda>c. c \<noteq> CHR ''{'') text)))"

text \<open>The prefix of a string that ends with its last occurrence of \<open>c\<close>.\<close>

definition trim_to_last :: "char \<Rightarrow> string \<Rightarrow> string" where
  "trim_to_last c s = rev (dropWhile (\<lambda>x. x \<noteq> c) (rev s))"

text \<open>
  The specification's words for the last tier: a structure with a non-empty executive
  summary, an empty list of recommendations and priority medium.
\<close>

definition minimal_valid :: "json \<Rightarrow> bool" where
  "minimal_valid j =
     (case j of
        JObj kvs \<Rightarrow>
          (case map_of kvs ''executive_summary'' of Some (JStr s) \<Rightarrow> s \<noteq> [] | _ \<Rightarrow> False)
          \<and> map_of kvs ''recommendations'' = Some (JArr [])
          \<and> map_of kvs ''priority_level'' = Some (JStr ''medium'')
      | _ \<Rightarrow> False)"

definition spec_parse :: "(string \<Rightarrow> exn + json) \<Rightarrow> string \<Rightarrow> json" where
  "spec_parse loads response =
     (case loads (clean_response response) of
        Inr j \<Rightarrow> j
      | Inl e \<Rightarrow>
          (if CHR ''{'' \<in> set response \<and> CHR ''}'' \<in> set response then
             (case loads (spec_between_braces response) of
                Inr j \<Rightarrow> j
              | Inl e' \<Rightarrow> default_structure_extraction)
           else default_structure))"

text \<open>A stand-in parser for examples: it accepts the empty object only.\<close>

definition toy_loads :: "string \<Rightarrow> exn + json" where
  "toy_loads s = (if s = ''{}'' then Inr (JObj []) else Inl JSONDecodeError)"

text \<open>
  A stand-in parser with two limits of \<open>json.loads\<close>: an input that opens more arrays
  than the interpreter's recursion limit (1000 by default) makes it raise
  \<open>RecursionError\<close>, and an integer literal of more than 4300 digits makes the
  conversion to \<open>int\<close> raise a plain \<open>ValueError\<close>. Neither is a
  \<open>JSONDecodeError\<close>. On any other input it is \<open>toy_loads\<close>.
\<close>

definition recursion_limit :: nat where
  "recursion_limit = 1000"

definition max_str_digits :: nat where
  "max_str_digits = 4300"

definition isdigit :: "char \<Rightarrow> bool" where
  "isdigit c = (let n = (of_char c :: nat) in 48 \<le> n \<and> n \<le> 57)"

definition limited_loads :: "string \<Rightarrow> exn + json" where
  "limited_loads s =
     (if recursion_limit < length (takeWhile (\<lambda>c. c = CHR ''['') s) then Inl RecursionError
      else if s \<noteq> [] \<and> list_all isdigit s \<and> max_str_digits < length s then Inl ValueError
      else toy_loads s)"
section \<open>Connection configuration and availability\<close>

text \<open>
  The Django settings are a finite map from attribute names to values;
  \<open>getattr(settings, name, default)\<close> reads it, and \<open>settings.NAME\<close> raises
  \<open>AttributeError\<close> when the attribute is missing. The constructor of the client
  library, \<open>AzureOpenAI(api_key, api_version, azure_endpoint)\<close>, is a parameter that returns
  a client or the exception it raised.
\<close>

type_synonym settings = "string \<rightharpoonup> json"

type_synonym 'c client_constructor = "json \<Rightarrow> json \<Rightarrow> json \<Rightarrow> exn + 'c"

definition getattr :: "settings \<Rightarrow> string \<Rightarrow> json \<Rightarrow> json" where
  "getattr settings name dflt = (case settings name of None \<Rightarrow> dflt | Some v \<Rightarrow> v)"

subsection \<open>The shared completion service (core/services/azure_openai.py)\<close>

text \<open>
  The service is a process-wide singleton: \<open>__init__\<close> runs its body once, on the settings
  of that moment.
\<close>

record 'c AzureOpenAIService =
  api_key :: json
  endpoint :: json
  api_version :: json
  deployment_name :: json
  client :: "'c option"

definition initialize_client ::
  "'c client_constructor \<Rightarrow> 'c AzureOpenAIService \<Rightarrow> 'c AzureOpenAIService" where
  "initialize_client azure_openai self =
     (if \<not> list_all truthy [api_key self, endpoint self] then self
      else
        (case azure_openai (api_key self) (api_version self) (endpoint self) of
           Inr c \<Rightarrow> self\<lparr>client := Some c\<rparr>
         | Inl e \<Rightarrow> self\<lparr>client := None\<rparr>))"

definition service_init :: "'c client_constructor \<Rightarrow> settings \<Rightarrow> 'c AzureOpenAIService" where
  "service_init azure_openai settings =
     initialize_client azure_openai
       \<lparr>api_key = getattr settings ''AZURE_OPENAI_API_KEY'' (JStr []),
        endpoint = getattr settings ''AZURE_OPENAI_ENDPOINT'' (JStr []),
        api_version = getattr settings ''AZURE_OPENAI_API_VERSION'' (JStr ''2024-02-01''),
        deployment_name = getattr settings ''AZURE_OPENAI_DEPLOYMENT_NAME'' (JStr ''gpt-4''),
        client = None\<rparr>"

definition service_is_available :: "'c AzureOpenAIService \<Rightarrow> bool" where
  "service_is_available self = (client self \<noteq> None)"

subsection \<open>The engine of the AI anomaly detector (analysis/services/llm/engine.py)\<close>

definition required_settings :: "string list" where
  "required_settings =
     [''AZURE_OPENAI_ENDPOINT'', ''AZURE_OPENAI_API_KEY'', ''AZURE_OPENAI_DEPLOYMENT_NAME'']"

text \<open>\<open>settings.NAME\<close>, inside the \<open>try\<close> of \<open>_initialize_azure_client\<close>.\<close>

definition settings_attr :: "settings \<Rightarrow> string \<Rightarrow> exn + json" where
  "settings_attr settings name =
     (case settings name of None \<Rightarrow> Inl AttributeError | Some v \<Rightarrow> Inr v)"

definition initialize_azure_client :: "'c client_constructor \<Rightarrow> settings \<Rightarrow> 'c option" where
  "initialize_azure_client azure_openai settings =
     (let missing_settings =
            filter (\<lambda>setting. \<not> truthy (getattr settings setting JNull)) required_settings
      in if missing_settings \<noteq> [] then None
         else
           (case settings_attr settings ''AZURE_OPENAI_ENDPOINT'' of
              Inl e \<Rightarrow> None
            | Inr ep \<Rightarrow>
                (case settings_attr settings ''AZURE_OPENAI_API_KEY'' of
                   Inl e \<Rightarrow> None
                 | Inr key \<Rightarrow>
                     (case settings_attr settings ''AZURE_OPENAI_API_VERSION'' of
                        Inl e \<Rightarrow> None
                      | Inr ver \<Rightarrow>
                          (case azure_openai key ver ep of
                             Inr c \<Rightarrow> Some c
                           | Inl e \<Rightarrow> None)))))"

definition engine_is_available :: "'c option \<Rightarrow> bool" where
  "engine_is_available azure_client = (azure_client \<noteq> None)"

text \<open>
  The specification's words: a setting is present when it is defined and not empty; the
  required configuration is the endpoint, the key and the deployment identifier.
\<close>

definition present :: "settings \<Rightarrow> string \<Rightarrow> bool" where
  "present settings name = (case settings name of None \<Rightarrow> False | Some v \<Rightarrow> truthy v)"

definition succeeds :: "exn + 'a \<Rightarrow> bool" where
  "succeeds r = (case r of Inr v \<Rightarrow> True | Inl e \<Rightarrow> False)"

definition spec_configured :: "settings \<Rightarrow> bool" where
  "spec_configured settings =
     (present settings ''AZURE_OPENAI_ENDPOINT''
      \<and> present settings ''AZURE_OPENAI_API_KEY''
      \<and> present settings ''AZURE_OPENAI_DEPLOYMENT_NAME'')"

text \<open>A constructor that always returns a client, and settings without a deployment.\<close>

definition connects :: "unit client_constructor" where
  "connects key ver ep = Inr ()"

definition settings_no_deployment :: settings where
  "settings_no_deployment =
     map_of [(''AZURE_OPENAI_ENDPOINT'', JStr ''https://example.openai.azure.com''),
             (''AZURE_OPENAI_API_KEY'', JStr ''secret'')]"

definition settings_complete :: settings where
  "settings_complete =
     map_of [(''AZURE_OPENAI_ENDPOINT'', JStr ''https://example.openai.azure.com''),
             (''AZURE_OPENAI_API_KEY'', JStr ''secret''),
             (''AZURE_OPENAI_DEPLOYMENT_NAME'', JStr ''gpt-4''),
             (''AZURE_OPENAI_API_VERSION'', JStr ''2024-02-01'')]"

section \<open>Persistence of analysis results (the ORM calls of the detectors)\<close>

text \<open>
  The stored Anomaly Result (\<open>AnomalyDetection\<close> in ingestion/models.py). Its \<open>metrics\<close>
  field is a \<open>OneToOneField\<close>: a foreign key to the snapshot with a uniqueness
  constraint, so the table is a map from the snapshot's id to at most one result.
\<close>

record AnomalyDetection =
  detection_metrics :: nat
  cpu_anomaly :: bool
  memory_anomaly :: bool
  latency_anomaly :: bool
  disk_anomaly :: bool
  io_anomaly :: bool
  error_rate_anomaly :: bool
  temperature_anomaly :: bool
  power_anomaly :: bool
  service_anomaly :: bool
  anomaly_summary :: string
  severity_score :: int
  analysis_method :: string

record database =
  metrics_rows :: "nat \<rightharpoonup> InfrastructureMetrics"
  detections :: "nat \<rightharpoonup> AnomalyDetection"

text \<open>Sequencing of steps that may raise: the first exception ends the sequence.\<close>

definition andthen :: "exn + 'a \<Rightarrow> ('a \<Rightarrow> exn + 'b) \<Rightarrow> exn + 'b" where
  "andthen m f = (case m of Inl e \<Rightarrow> Inl e | Inr v \<Rightarrow> f v)"

text \<open>
  What Django does with a value handed to a field when the row is written.
  \<open>BooleanField.to_python\<close> accepts the booleans, the numbers 1 and 0 and the strings
  t, True, 1, f, False, 0, and raises \<open>ValidationError\<close> on anything else.
  \<open>IntegerField.get_prep_value\<close> applies \<open>int(value)\<close>; \<open>None\<close> reaches the database and
  violates the NOT NULL constraint; an integer outside the 64-bit range is refused by
  the database driver.
\<close>

definition boolean_field :: "json \<Rightarrow> exn + bool" where
  "boolean_field v =
     (case v of
        JBool b \<Rightarrow> Inr b
      | JInt n \<Rightarrow> (if n = 1 then Inr True else if n = 0 then Inr False
                   else Inl ValidationError)
      | JFloat x \<Rightarrow> (if x = 1 then Inr True else if x = 0 then Inr False
                     else Inl ValidationError)
      | JStr s \<Rightarrow> (if s \<in> set [''t'', ''True'', ''1''] then Inr True
                   else if s \<in> set [''f'', ''False'', ''0''] then Inr False
                   else Inl ValidationError)
      | _ \<Rightarrow> Inl ValidationError)"

definition db_integer :: "int \<Rightarrow> exn + int" where
  "db_integer n = (if - (2 ^ 63) \<le> n \<and> n < 2 ^ 63 then Inr n else Inl OverflowError)"

definition integer_field :: "py_builtins \<Rightarrow> json \<Rightarrow> exn + int" where
  "integer_field py v =
     (case v of
        JInt n \<Rightarrow> db_integer n
      | JBool b \<Rightarrow> Inr (if b then 1 else 0)
      | JFloat x \<Rightarrow> db_integer (if x \<ge> 0 then \<lfloor>x\<rfloor> else \<lceil>x\<rceil>)
      | JStr s \<Rightarrow> (case int_str py s of Some n \<Rightarrow> db_integer n | None \<Rightarrow> Inl ValueError)
      | JNull \<Rightarrow> Inl IntegrityError
      | _ \<Rightarrow> Inl TypeError)"

text \<open>A flag passed as keyword argument, or the field's default \<open>False\<close>.\<close>

definition flag_field :: "(string \<times> json) list \<Rightarrow> string \<Rightarrow> exn + bool" where
  "flag_field flags name =
     (case map_of flags name of None \<Rightarrow> Inr False | Some v \<Rightarrow> boolean_field v)"

text \<open>
  \<open>AnomalyDetection.objects.create(metrics=..., **flags, anomaly_summary=...,
  severity_score=..., analysis_method=...)\<close>: the values are prepared field by field, then
  the row is inserted; the insert fails when the snapshot is not stored or already has a
  result.
\<close>

definition objects_create ::
  "py_builtins \<Rightarrow> database \<Rightarrow> nat \<Rightarrow> (string \<times> json) list \<Rightarrow> string \<Rightarrow> json \<Rightarrow> string
     \<Rightarrow> exn + (AnomalyDetection \<times> database)" where
  "objects_create py db mid flags summary severity method =
     andthen (flag_field flags ''cpu_anomaly'') (\<lambda>cpu.
     andthen (flag_field flags ''memory_anomaly'') (\<lambda>memory.
     andthen (flag_field flags ''latency_anomaly'') (\<lambda>latency.
     andthen (flag_field flags ''disk_anomaly'') (\<lambda>disk.
     andthen (flag_field flags ''io_anomaly'') (\<lambda>io.
     andthen (flag_field flags ''error_rate_anomaly'') (\<lambda>error_rate.
     andthen (flag_field flags ''temperature_anomaly'') (\<lambda>temperature.
     andthen (flag_field flags ''power_anomaly'') (\<lambda>power.
     andthen (flag_field flags ''service_anomaly'') (\<lambda>service.
     andthen (integer_field py severity) (\<lambda>sev.
       if metrics_rows db mid = None \<or> detections db mid \<noteq> None then Inl IntegrityError
       else
         (let ad = \<lparr>detection_metrics = mid,
               cpu_anomaly = cpu,
               memory_anomaly = memory,
               latency_anomaly = latency,
               disk_anomaly = disk,
               io_anomaly = io,
               error_rate_anomaly = error_rate,
               temperature_anomaly = temperature,
               power_anomaly = power,
               service_anomaly = service,
               anomaly_summary = summary,
               severity_score = sev,
               analysis_method = method\<rparr>
          in Inr (ad, db\<lparr>detections := (detections db)(mid \<mapsto> ad)\<rparr>))))))))))))"

text \<open>
  \<open>metrics.is_anomalous = v; metrics.analysis_completed = True; metrics.save()\<close>: the row
  of the snapshot is overwritten with the object's fields; the value assigned to
  \<open>is_anomalous\<close> is prepared as a boolean field.
\<close>

definition metrics_save :: "database \<Rightarrow> InfrastructureMetrics \<Rightarrow> json \<Rightarrow> exn + database" where
  "metrics_save db metrics v =
     andthen (boolean_field v) (\<lambda>a.
       Inr (db\<lparr>metrics_rows := (metrics_rows db)
              (metrics_id metrics \<mapsto> metrics\<lparr>is_anomalous := a, analysis_completed := True\<rparr>)\<rparr>))"

section \<open>Threshold detector: summary and analysis\<close>

definition generate_summary ::
  "py_builtins \<Rightarrow> (string \<times> bool) list \<Rightarrow> InfrastructureMetrics \<Rightarrow> string" where
  "generate_summary py anomalies metrics =
     (let on = (\<lambda>name. map_of anomalies name = Some True);
          anomaly_messages =
            (if on ''cpu_anomaly'' then [(''CPU '' @ [CHR 0xE9] @ ''lev'' @ [CHR 0xE9] @ '': '') @ str_float py (cpu_usage metrics) @ ''%''] else [])
            @ (if on ''memory_anomaly'' then [(''M'' @ [CHR 0xE9] @ ''moire '' @ [CHR 0xE9] @ ''lev'' @ [CHR 0xE9] @ ''e: '') @ str_float py (memory_usage metrics) @ ''%''] else [])
            @ (if on ''latency_anomaly'' then [''Latence: '' @ str_float py (latency_ms metrics) @ ''ms''] else [])
            @ (if on ''disk_anomaly'' then [''Disque critique: '' @ str_float py (disk_usage metrics) @ ''%''] else [])
            @ (if on ''io_anomaly'' then [(''I/O wait '' @ [CHR 0xE9] @ ''lev'' @ [CHR 0xE9] @ '': '') @ str_float py (io_wait metrics) @ ''%''] else [])
            @ (if on ''error_rate_anomaly'' then [''Erreurs: '' @ fmt_2f py (error_rate metrics * 100) @ ''%''] else [])
            @ (if on ''temperature_anomaly'' then [(''Temp'' @ [CHR 0xE9] @ ''rature: '') @ str_float py (temperature_celsius metrics) @ ([CHR 0xB0] @ ''C'')] else [])
            @ (if on ''power_anomaly'' then [''Consommation: '' @ str_float py (power_consumption_watts metrics) @ ''W''] else [])
            @ (if on ''service_anomaly'' \<and> degraded_services metrics \<noteq> []
               then [(''Services d'' @ [CHR 0xE9] @ ''grad'' @ [CHR 0xE9] @ ''s: '') @ join '', '' (take 3 (degraded_services metrics))] else [])
      in if anomaly_messages = [] then (''Aucune anomalie d'' @ [CHR 0xE9] @ ''tect'' @ [CHR 0xE9] @ ''e par analyse classique'')
         else (''Analyse classique - Seuils d'' @ [CHR 0xE9] @ ''pass'' @ [CHR 0xE9] @ ''s: '') @ join ''; '' anomaly_messages)"

text \<open>
  \<open>analyze_metrics\<close> returns the created result, or \<open>None\<close> when anything raised; the
  second component is the database afterwards.
\<close>

definition analyze_metrics ::
  "py_builtins \<Rightarrow> (string \<rightharpoonup> real) \<Rightarrow> database \<Rightarrow> InfrastructureMetrics
     \<Rightarrow> AnomalyDetection option \<times> database" where
  "analyze_metrics py thresholds db metrics =
     (let anomalies = detect_anomalies thresholds metrics;
          severity = calculate_severity_score anomalies;
          summary = generate_summary py anomalies metrics
      in case objects_create py db (metrics_id metrics) (map (\<lambda>(k, b). (k, JBool b)) anomalies)
                summary (JInt severity) ''classic'' of
           Inl e \<Rightarrow> (None, db)
         | Inr (anomaly_detection, db1) \<Rightarrow>
             (case metrics_save db1 metrics (JBool (list_ex snd anomalies)) of
                Inl e \<Rightarrow> (None, db1)
              | Inr db2 \<Rightarrow> (Some anomaly_detection, db2)))"

section \<open>Python operations on values of unknown shape\<close>

text \<open>
  A reply of the model is whatever \<open>json.loads\<close> returned, so every method call and
  subscript of the code may raise. \<open>x.get(k, d)\<close> exists on a dict only; iteration takes
  the elements of a list, the characters of a string and the keys of a dict; \<open>x[:n]\<close> is
  defined on lists and strings; \<open>sep.join(x)\<close> needs an iterable of strings.
\<close>

definition lookup :: "(string \<times> json) list \<Rightarrow> string \<Rightarrow> json \<Rightarrow> json" where
  "lookup kvs k dflt = (case map_of kvs k of None \<Rightarrow> dflt | Some v \<Rightarrow> v)"

definition dict_get :: "json \<Rightarrow> string \<Rightarrow> json \<Rightarrow> exn + json" where
  "dict_get x k dflt = (case x of JObj kvs \<Rightarrow> Inr (lookup kvs k dflt) | _ \<Rightarrow> Inl AttributeError)"

definition py_iter :: "json \<Rightarrow> exn + json list" where
  "py_iter x =
     (case x of
        JArr xs \<Rightarrow> Inr xs
      | JStr s \<Rightarrow> Inr (map (\<lambda>c. JStr [c]) s)
      | JObj kvs \<Rightarrow> Inr (map (\<lambda>kv. JStr (fst kv)) kvs)
      | _ \<Rightarrow> Inl TypeError)"

definition py_slice_to :: "nat \<Rightarrow> json \<Rightarrow> exn + json" where
  "py_slice_to n x =
     (case x of
        JArr xs \<Rightarrow> Inr (JArr (take n xs))
      | JStr s \<Rightarrow> Inr (JStr (take n s))
      | _ \<Rightarrow> Inl TypeError)"

fun strings_of :: "json list \<Rightarrow> exn + string list" where
  "strings_of [] = Inr []"
| "strings_of (JStr s # xs) = andthen (strings_of xs) (\<lambda>ss. Inr (s # ss))"
| "strings_of (x # xs) = Inl TypeError"

definition py_join :: "string \<Rightarrow> json \<Rightarrow> exn + string" where
  "py_join sep x =
     andthen (py_iter x) (\<lambda>items. andthen (strings_of items) (\<lambda>ss. Inr (join sep ss)))"

text \<open>A value inside an f-string: a string stands for itself.\<close>

definition format_value :: "py_builtins \<Rightarrow> json \<Rightarrow> string" where
  "format_value py v = (case v of JStr s \<Rightarrow> s | _ \<Rightarrow> str_json py v)"

text \<open>
  \<open>s.lower()\<close> on the code points below 256: the capital letters A to Z and the capital
  letters 192 to 222 other than the multiplication sign move up by 32.
\<close>

definition lower_char :: "char \<Rightarrow> char" where
  "lower_char c =
     (let n = (of_char c :: nat)
      in if (65 \<le> n \<and> n \<le> 90) \<or> (192 \<le> n \<and> n \<le> 222 \<and> n \<noteq> 215) then char_of (n + 32) else c)"

definition lower :: "string \<Rightarrow> string" where
  "lower s = map lower_char s"

text \<open>\<open>sub in s\<close> on strings.\<close>

fun contains :: "string \<Rightarrow> string \<Rightarrow> bool" where
  "contains [] sub = (sub = [])"
| "contains (c # cs) sub = (startswith (c # cs) sub \<or> contains cs sub)"

section \<open>AI anomaly detector (analysis/services/llm)\<close>

subsection \<open>The engine's completion call (engine.py)\<close>

definition clean_json_response :: "string \<Rightarrow> string" where
  "clean_json_response content =
     (let c1 = (if startswith content ([CHR 0x60, CHR 0x60, CHR 0x60] @ ''json'') then drop 7 content
                else if startswith content [CHR 0x60, CHR 0x60, CHR 0x60] then drop 3 content
                else content);
          c2 = (if endswith c1 [CHR 0x60, CHR 0x60, CHR 0x60] then take (length c1 - 3) c1 else c1)
      in strip c2)"

text \<open>
  \<open>call_llm_analysis\<close>: \<open>create\<close> stands for the request to the service and the read of
  \<open>response.choices[0].message.content\<close>; every exception, a decode error included, gives
  \<open>None\<close>.
\<close>

definition call_llm_analysis ::
  "'c option \<Rightarrow> ('c \<Rightarrow> string \<Rightarrow> exn + string) \<Rightarrow> (string \<Rightarrow> exn + json) \<Rightarrow> string \<Rightarrow> json option" where
  "call_llm_analysis azure_client create loads prompt =
     (case azure_client of
        None \<Rightarrow> None
      | Some c \<Rightarrow>
          (case create c prompt of
             Inl e \<Rightarrow> None
           | Inr raw \<Rightarrow>
               (case loads (clean_json_response (strip raw)) of
                  Inl e \<Rightarrow> None
                | Inr parsed_response \<Rightarrow> Some parsed_response)))"

subsection \<open>The detector (detector.py)\<close>

text \<open>
  What the three calls of the engine returned: (1) anomaly detection, (2) severity
  assessment, (3) correlation analysis.
\<close>

record llm_replies =
  anomaly_reply :: "json option"
  severity_reply :: "json option"
  correlation_reply :: "json option"

text \<open>\<open>x.copy()\<close> exists on dicts and lists.\<close>

definition copy_value :: "json \<Rightarrow> exn + json" where
  "copy_value x = (case x of JObj kvs \<Rightarrow> Inr x | JArr xs \<Rightarrow> Inr x | _ \<Rightarrow> Inl AttributeError)"

text \<open>\<open>d.update(other)\<close> and \<open>d[k] = v\<close> on a dict held as an association list.\<close>

definition updates :: "(string \<times> json) list \<Rightarrow> (string \<times> json) list \<Rightarrow> (string \<times> json) list" where
  "updates other kvs = fold (\<lambda>kv acc. AList.update (fst kv) (snd kv) acc) other kvs"

definition merge_severity :: "json \<Rightarrow> json \<Rightarrow> exn + json" where
  "merge_severity complete_analysis severity_analysis =
     (case complete_analysis of
        JObj ckvs \<Rightarrow>
          (case severity_analysis of
             JObj skvs \<Rightarrow>
               (let c1 = updates
                      [(''severity_justification'', lookup skvs ''severity_justification'' (JStr [])),
                       (''immediate_risk'', lookup skvs ''immediate_risk'' (JBool False)),
                       (''cascade_risk'', lookup skvs ''cascade_risk'' (JBool False)),
                       (''business_impact'', lookup skvs ''business_impact'' (JStr ''inconnu'')),
                       (''time_to_failure'', lookup skvs ''time_to_failure'' (JStr (''ind'' @ [CHR 0xE9] @ ''termin'' @ [CHR 0xE9])))]
                      ckvs
                in Inr (JObj (case map_of skvs ''severity_score'' of
                                None \<Rightarrow> c1
                              | Some v \<Rightarrow> AList.update ''severity_score'' v c1)))
           | _ \<Rightarrow> Inl AttributeError)
      | _ \<Rightarrow> Inl AttributeError)"

text \<open>The body of the loop over \<open>strong_correlations\<close>, and the loop.\<close>

definition correlation_desc :: "py_builtins \<Rightarrow> json \<Rightarrow> exn + string" where
  "correlation_desc py corr =
     andthen (dict_get corr ''metrics_pair'' (JArr [])) (\<lambda>pair.
     andthen (py_join '' & '' pair) (\<lambda>joined.
     andthen (dict_get corr ''explanation'' (JStr (''corr'' @ [CHR 0xE9] @ ''lation d'' @ [CHR 0xE9] @ ''tect'' @ [CHR 0xE9] @ ''e''))) (\<lambda>explanation.
       Inr (joined @ '': '' @ format_value py explanation))))"

fun new_correlations :: "py_builtins \<Rightarrow> json list \<Rightarrow> exn + string list" where
  "new_correlations py [] = Inr []"
| "new_correlations py (corr # rest) =
     andthen (correlation_desc py corr) (\<lambda>d.
     andthen (new_correlations py rest) (\<lambda>ds. Inr (d # ds)))"

definition merge_correlations :: "py_builtins \<Rightarrow> json \<Rightarrow> json \<Rightarrow> exn + json" where
  "merge_correlations py complete_analysis correlation_analysis =
     (case complete_analysis of
        JObj ckvs \<Rightarrow>
          (let existing_correlations = lookup ckvs ''correlations_found'' (JArr [])
           in andthen (dict_get correlation_analysis ''strong_correlations'' (JArr [])) (\<lambda>strong.
              andthen (py_iter strong) (\<lambda>items.
              andthen (new_correlations py items) (\<lambda>descs.
                (case existing_correlations of
                   JArr existing \<Rightarrow>
                     andthen (dict_get correlation_analysis ''insights'' (JArr [])) (\<lambda>insights.
                       Inr (JObj (AList.update ''correlation_insights'' insights
                              (AList.update ''correlations_found''
                                 (JArr (existing @ map JStr (take 3 descs))) ckvs))))
                 | _ \<Rightarrow> Inl TypeError)))))
      | _ \<Rightarrow> Inl AttributeError)"

definition merge_llm_analyses ::
  "py_builtins \<Rightarrow> json \<Rightarrow> json option \<Rightarrow> json option \<Rightarrow> exn + json" where
  "merge_llm_analyses py anomaly_analysis severity_analysis correlation_analysis =
     andthen (copy_value anomaly_analysis) (\<lambda>c0.
     andthen (case severity_analysis of
                None \<Rightarrow> Inr c0
              | Some sev \<Rightarrow> (if truthy sev then merge_severity c0 sev else Inr c0)) (\<lambda>c1.
       (case correlation_analysis of
          None \<Rightarrow> Inr c1
        | Some cor \<Rightarrow> (if truthy cor then merge_correlations py c1 cor else Inr c1))))"

text \<open>
  \<open>detect_anomalies\<close> of the AI detector; \<open>available\<close> is the engine's availability
  probe. An exception of the merge is caught and gives \<open>None\<close>.
\<close>

definition llm_detect_anomalies :: "py_builtins \<Rightarrow> bool \<Rightarrow> llm_replies \<Rightarrow> json option" where
  "llm_detect_anomalies py available replies =
     (if \<not> available then None
      else
        (case anomaly_reply replies of
           None \<Rightarrow> None
         | Some anomaly_analysis \<Rightarrow>
             (if \<not> truthy anomaly_analysis then None
              else
                (case merge_llm_analyses py anomaly_analysis (severity_reply replies)
                        (correlation_reply replies) of
                   Inl e \<Rightarrow> None
                 | Inr complete_analysis \<Rightarrow> Some complete_analysis))))"

definition convert_llm_to_model_format :: "json \<Rightarrow> exn + (string \<times> json) list" where
  "convert_llm_to_model_format llm_analysis =
     andthen (dict_get llm_analysis ''anomalies_detected'' (JObj [])) (\<lambda>llm_anomalies.
       (case llm_anomalies of
          JObj kvs \<Rightarrow>
            Inr [(''cpu_anomaly'', lookup kvs ''cpu'' (JBool False)),
               (''memory_anomaly'', lookup kvs ''memory'' (JBool False)),
               (''latency_anomaly'', lookup kvs ''latency'' (JBool False)),
               (''disk_anomaly'', lookup kvs ''disk'' (JBool False)),
               (''io_anomaly'', lookup kvs ''io'' (JBool False)),
               (''error_rate_anomaly'', lookup kvs ''error_rate'' (JBool False)),
               (''temperature_anomaly'', lookup kvs ''temperature'' (JBool False)),
               (''power_anomaly'', lookup kvs ''power'' (JBool False)),
               (''service_anomaly'', lookup kvs ''services'' (JBool False))]
        | _ \<Rightarrow> Inl AttributeError))"

text \<open>A part of the summary built from the first two items of a list-like value.\<close>

definition joined_part :: "string \<Rightarrow> json \<Rightarrow> exn + string" where
  "joined_part label x =
     andthen (py_slice_to 2 x) (\<lambda>firsts.
     andthen (py_join ''; '' firsts) (\<lambda>joined. Inr (label @ joined)))"

text \<open>\<open>generate_llm_summary\<close>; its second parameter, the snapshot, is not read by the code.\<close>

definition generate_llm_summary :: "json \<Rightarrow> exn + string" where
  "generate_llm_summary llm_analysis =
     andthen (dict_get llm_analysis ''risk_assessment'' (JStr [])) (\<lambda>risk_assessment.
     andthen (if \<not> truthy risk_assessment then Inr []
              else (case risk_assessment of
                      JStr s \<Rightarrow> Inr (if \<not> contains (lower s) ''indisponible''
                                       then [''LLM: '' @ s] else [])
                    | _ \<Rightarrow> Inl AttributeError)) (\<lambda>part1.
     andthen (dict_get llm_analysis ''anomaly_explanations'' (JArr [])) (\<lambda>explanations.
     andthen (if truthy explanations \<and> explanations \<noteq> JArr [JStr ''Analyse LLM non disponible'']
              then andthen (joined_part (''D'' @ [CHR 0xE9] @ ''tails: '') explanations) (\<lambda>p. Inr [p])
              else Inr []) (\<lambda>part2.
     andthen (dict_get llm_analysis ''correlations_found'' (JArr [])) (\<lambda>correlations.
     andthen (if truthy correlations
              then andthen (joined_part (''Corr'' @ [CHR 0xE9] @ ''lations: '') correlations) (\<lambda>p. Inr [p])
              else Inr []) (\<lambda>part3.
       (let summary_parts = part1 @ part2 @ part3
        in if summary_parts = [] then Inr (''Analyse LLM: Aucune anomalie significative d'' @ [CHR 0xE9] @ ''tect'' @ [CHR 0xE9] @ ''e'')
           else Inr (join '' | '' summary_parts))))))))"

text \<open>
  \<open>analyze_metrics\<close> of the AI detector. The result is created first; the snapshot's flags
  are saved afterwards. Whatever raises is caught and gives \<open>None\<close>; the second component
  is the database afterwards.
\<close>

definition llm_analyze_metrics ::
  "py_builtins \<Rightarrow> bool \<Rightarrow> llm_replies \<Rightarrow> database \<Rightarrow> InfrastructureMetrics
     \<Rightarrow> AnomalyDetection option \<times> database" where
  "llm_analyze_metrics py available replies db metrics =
     (case llm_detect_anomalies py available replies of
        None \<Rightarrow> (None, db)
      | Some llm_analysis \<Rightarrow>
          (if \<not> truthy llm_analysis then (None, db)
           else
             (case andthen (convert_llm_to_model_format llm_analysis) (\<lambda>model_anomalies.
                   andthen (dict_get llm_analysis ''severity_score'' (JInt 5)) (\<lambda>severity.
                   andthen (generate_llm_summary llm_analysis) (\<lambda>summary.
                   andthen (objects_create py db (metrics_id metrics) model_anomalies summary
                              severity ''llm'') (\<lambda>created.
                     Inr (model_anomalies, created))))) of
                Inl e \<Rightarrow> (None, db)
              | Inr (model_anomalies, anomaly_detection, db1) \<Rightarrow>
                  (case andthen (dict_get llm_analysis ''is_critical'' (JBool False)) (\<lambda>is_critical.
                          metrics_save db1 metrics
                            (if truthy is_critical then is_critical
                             else JBool (list_ex truthy (map snd model_anomalies)))) of
                     Inl e \<Rightarrow> (None, db1)
                   | Inr db2 \<Rightarrow> (Some anomaly_detection, db2)))))"

section \<open>The merge rule of the AI detector in the specification's words\<close>

text \<open>
  The risk fields that a severity assessment contributes (each with the default the code
  uses when the reply lacks it), and the merged dictionary after a successful call (2):
  the severity score of the reply overrides the base score when the reply has one, the
  risk fields are added, every other key is the base's.
\<close>

definition risk_fields :: "(string \<times> json) list \<Rightarrow> (string \<times> json) list" where
  "risk_fields sev =
     [(''severity_justification'', lookup sev ''severity_justification'' (JStr [])),
      (''immediate_risk'', lookup sev ''immediate_risk'' (JBool False)),
      (''cascade_risk'', lookup sev ''cascade_risk'' (JBool False)),
      (''business_impact'', lookup sev ''business_impact'' (JStr ''inconnu'')),
      (''time_to_failure'', lookup sev ''time_to_failure'' (JStr (''ind'' @ [CHR 0xE9] @ ''termin'' @ [CHR 0xE9])))]"

definition spec_after_severity ::
  "(string \<times> json) list \<Rightarrow> (string \<times> json) list \<Rightarrow> string \<Rightarrow> json option" where
  "spec_after_severity base sev k =
     (if k = ''severity_score'' \<and> map_of sev k \<noteq> None then map_of sev k
      else (case map_of (risk_fields sev) k of
              Some v \<Rightarrow> Some v
            | None \<Rightarrow> map_of base k))"

text \<open>
  The text of one correlation finding: the names of its metrics pair joined by
  \<open>" & "\<close>, a colon, and its explanation (a fixed text when the finding has none).
\<close>

fun spec_joined :: "string \<Rightarrow> string list \<Rightarrow> string" where
  "spec_joined sep [] = []"
| "spec_joined sep (s # ss) = s @ concat (map (\<lambda>t. sep @ t) ss)"

definition spec_names :: "json option \<Rightarrow> string list" where
  "spec_names pair =
     (case pair of
        Some (JArr ps) \<Rightarrow> concat (map (\<lambda>p. case p of JStr s \<Rightarrow> [s] | _ \<Rightarrow> []) ps)
      | _ \<Rightarrow> [])"

definition spec_finding_text :: "py_builtins \<Rightarrow> json \<Rightarrow> string" where
  "spec_finding_text py corr =
     (case corr of
        JObj kvs \<Rightarrow>
          spec_joined '' & '' (spec_names (map_of kvs ''metrics_pair''))
          @ '': ''
          @ (case map_of kvs ''explanation'' of
               None \<Rightarrow> ''corr'' @ [CHR 0xE9] @ ''lation d'' @ [CHR 0xE9] @ ''tect'' @ [CHR 0xE9] @ ''e''
             | Some (JStr s) \<Rightarrow> s
             | Some v \<Rightarrow> str_json py v)
      | _ \<Rightarrow> [])"

text \<open>
  The merged dictionary after a successful call (3), over the dictionary \<open>m\<close> merged so
  far: the texts of the first three findings of the reply are appended to the correlation
  list of \<open>m\<close>, the insights of the reply are stored, every other key is that of \<open>m\<close>.
\<close>

definition spec_list :: "json option \<Rightarrow> json list" where
  "spec_list v = (case v of Some (JArr xs) \<Rightarrow> xs | _ \<Rightarrow> [])"

definition spec_after_correlations ::
  "py_builtins \<Rightarrow> (string \<rightharpoonup> json) \<Rightarrow> (string \<times> json) list \<Rightarrow> string \<Rightarrow> json option" where
  "spec_after_correlations py m cor k =
     (if k = ''correlations_found'' then
        Some (JArr (spec_list (m k)
                    @ map (\<lambda>c. JStr (spec_finding_text py c))
                        (take 3 (spec_list (map_of cor ''strong_correlations'')))))
      else if k = ''correlation_insights'' then
        Some (case map_of cor ''insights'' of None \<Rightarrow> JArr [] | Some v \<Rightarrow> v)
      else m k)"

text \<open>
  The merge rule as a whole. A call that failed returned nothing; a call that returned an
  empty object contributes nothing either. Call (1) is the base, call (2) is merged
  first, call (3) second.
\<close>

definition contribution :: "(string \<times> json) list option \<Rightarrow> (string \<times> json) list option" where
  "contribution reply =
     (case reply of None \<Rightarrow> None | Some kvs \<Rightarrow> if kvs = [] then None else Some kvs)"

definition spec_merged ::
  "py_builtins \<Rightarrow> (string \<times> json) list \<Rightarrow> (string \<times> json) list option
     \<Rightarrow> (string \<times> json) list option \<Rightarrow> string \<Rightarrow> json option" where
  "spec_merged py base sev cor =
     (let m1 = (case contribution sev of
                  None \<Rightarrow> map_of base
                | Some s \<Rightarrow> spec_after_severity base s)
      in case contribution cor of
           None \<Rightarrow> m1
         | Some c \<Rightarrow> spec_after_correlations py m1 c)"

text \<open>
  Findings of the shape the prompt asks for: objects whose \<open>metrics_pair\<close> is a list of
  strings, merged into a correlation list that is a list.
\<close>

definition is_str :: "json \<Rightarrow> bool" where
  "is_str v = (case v of JStr s \<Rightarrow> True | _ \<Rightarrow> False)"

definition is_list :: "json \<Rightarrow> bool" where
  "is_list v = (case v of JArr xs \<Rightarrow> True | _ \<Rightarrow> False)"

definition finding_ok :: "json \<Rightarrow> bool" where
  "finding_ok corr =
     (case corr of
        JObj kvs \<Rightarrow>
          (case lookup kvs ''metrics_pair'' (JArr []) of
             JArr ps \<Rightarrow> list_all is_str ps
           | _ \<Rightarrow> False)
      | _ \<Rightarrow> False)"

definition is_dict :: "json \<Rightarrow> bool" where
  "is_dict v = (case v of JObj kvs \<Rightarrow> True | _ \<Rightarrow> False)"

definition findings_ok :: "(string \<times> json) list \<Rightarrow> (string \<times> json) list \<Rightarrow> bool" where
  "findings_ok base cor =
     (is_list (lookup base ''correlations_found'' (JArr []))
      \<and> (case lookup cor ''strong_correlations'' (JArr []) of
            JArr items \<Rightarrow> list_all finding_ok items
          | _ \<Rightarrow> False))"

text \<open>Example data: a stand-in for Python's formatting, and replies of the three calls.\<close>

definition py_stub :: py_builtins where
  "py_stub = \<lparr>str_float = (\<lambda>x. ''#''), fmt_2f = (\<lambda>x. ''#''),
               str_json = (\<lambda>v. ''#''), int_str = (\<lambda>s. None)\<rparr>"

definition base_example :: "(string \<times> json) list" where
  "base_example =
     [(''anomalies_detected'', JObj [(''cpu'', JBool True)]),
      (''severity_score'', JInt 4),
      (''correlations_found'', JArr [JStr ''cpu/io''])]"

definition severity_example :: "(string \<times> json) list" where
  "severity_example = [(''severity_score'', JInt 8), (''immediate_risk'', JBool True)]"

definition finding_example :: "string \<Rightarrow> json" where
  "finding_example why =
     JObj [(''metrics_pair'', JArr [JStr ''cpu'', JStr ''latency'']), (''explanation'', JStr why)]"

definition correlation_example :: "(string \<times> json) list" where
  "correlation_example =
     [(''strong_correlations'',
       JArr [finding_example ''a'', finding_example ''b'', finding_example ''c'',
             finding_example ''d''])]"

section \<open>Detection strategy selector (analysis/services/services.py)\<close>

datatype detector = ClassicAnomalyDetector | LLMAnomalyDetector

record AnomalyDetectionService =
  service_method :: string
  service_detector :: detector

definition detection_service :: "string \<Rightarrow> AnomalyDetectionService" where
  "detection_service method =
     (if method = ''classic'' then
        \<lparr>service_method = method, service_detector = ClassicAnomalyDetector\<rparr>
      else if method = ''llm'' then
        \<lparr>service_method = method, service_detector = LLMAnomalyDetector\<rparr>
      else
        \<lparr>service_method = ''classic'', service_detector = ClassicAnomalyDetector\<rparr>)"

text \<open>
  The selector's \<open>analyze_metrics\<close> delegates to its detector. The configuration of the two
  detectors (thresholds; availability and replies of the model) is passed along.
\<close>

definition service_analyze_metrics ::
  "py_builtins \<Rightarrow> (string \<rightharpoonup> real) \<Rightarrow> bool \<Rightarrow> llm_replies \<Rightarrow> AnomalyDetectionService
     \<Rightarrow> database \<Rightarrow> InfrastructureMetrics \<Rightarrow> AnomalyDetection option \<times> database" where
  "service_analyze_metrics py thresholds available replies service db metrics =
     (case service_detector service of
        ClassicAnomalyDetector \<Rightarrow> analyze_metrics py thresholds db metrics
      | LLMAnomalyDetector \<Rightarrow> llm_analyze_metrics py available replies db metrics)"

section \<open>The caller of the selector (analysis/views.py)\<close>

definition validate_analysis_method :: "string \<Rightarrow> string" where
  "validate_analysis_method method =
     (if method = [] then ''classic''
      else if lower method \<in> set [''classic'', ''llm''] then lower method
      else ''classic'')"

datatype analysis_response =
    AnalysisAlreadyExists AnomalyDetection
  | AnalysisSuccess AnomalyDetection
  | LLMNotConfigured
  | AnalysisFailed
  | InternalError

text \<open>
  \<open>_analyze_single_metric\<close>, for a validated id and method. For an id that is not stored,
  \<open>get_object_or_404\<close> raises \<open>Http404\<close>; that is neither a \<open>ValueError\<close> nor the model's
  \<open>DoesNotExist\<close>, so the last handler, \<open>except Exception\<close>, answers with the internal
  error reply. A snapshot that is marked analysed and has a result of the same method is
  answered from the store; a result of the other method is deleted and the snapshot's
  flags are reset before the analysis runs.
\<close>

definition analyze_single_metric ::
  "py_builtins \<Rightarrow> (string \<rightharpoonup> real) \<Rightarrow> bool \<Rightarrow> llm_replies \<Rightarrow> database \<Rightarrow> nat \<Rightarrow> string
     \<Rightarrow> analysis_response \<times> database" where
  "analyze_single_metric py thresholds available replies db mid method =
     (case metrics_rows db mid of
        None \<Rightarrow> (InternalError, db)
      | Some metrics \<Rightarrow>
          (let run = (\<lambda>db' metrics'.
                 (case service_analyze_metrics py thresholds available replies
                         (detection_service method) db' metrics' of
                    (None, db'') \<Rightarrow>
                      (if method = ''llm'' then (LLMNotConfigured, db'') else (AnalysisFailed, db''))
                  | (Some anomaly_detection, db'') \<Rightarrow> (AnalysisSuccess anomaly_detection, db'')))
           in case (if analysis_completed metrics then detections db mid else None) of
                Some existing_analysis \<Rightarrow>
                  (if analysis_method existing_analysis = method then
                     (AnalysisAlreadyExists existing_analysis, db)
                   else
                     (let metrics1 = metrics\<lparr>analysis_completed := False, is_anomalous := False\<rparr>;
                          db1 = db\<lparr>detections := (detections db)(mid := None),
                                   metrics_rows := (metrics_rows db)(mid \<mapsto> metrics1)\<rparr>
                      in run db1 metrics1))
              | None \<Rightarrow> run db metrics))"

section \<open>Example snapshots, stores and replies\<close>

text \<open>
  A stored snapshot that has not been analysed, the same snapshot with a result of the
  threshold detector, a reply whose severity assessment gives the score 15, and a reply
  whose criticality flag is the text \<open>true\<close> instead of a boolean.
\<close>

definition snapshot_example :: InfrastructureMetrics where
  "snapshot_example =
     \<lparr>metrics_id = 1, cpu_usage = 91, memory_usage = 40, latency_ms = 120, disk_usage = 55,
      network_in_kbps = 300, network_out_kbps = 200, io_wait = 3, thread_count = 64,
      active_connections = 12, error_rate = 1 / 1000, uptime_seconds = 86400,
      temperature_celsius = 50, power_consumption_watts = 250,
      service_status = [(''database'', ''online''), (''api_gateway'', ''online'')],
      is_anomalous = False, analysis_completed = False\<rparr>"

definition db_example :: database where
  "db_example = \<lparr>metrics_rows = [1 \<mapsto> snapshot_example], detections = Map.empty\<rparr>"

definition replies_severity_15 :: llm_replies where
  "replies_severity_15 =
     \<lparr>anomaly_reply = Some (JObj base_example),
      severity_reply = Some (JObj [(''severity_score'', JInt 15)]),
      correlation_reply = None\<rparr>"

definition replies_critical_text :: llm_replies where
  "replies_critical_text =
     \<lparr>anomaly_reply = Some (JObj [(''anomalies_detected'', JObj [(''cpu'', JBool True)]),
                                   (''severity_score'', JInt 8),
                                   (''is_critical'', JStr ''true'')]),
      severity_reply = None,
      correlation_reply = None\<rparr>"

definition existing_example :: AnomalyDetection where
  "existing_example =
     \<lparr>detection_metrics = 1, cpu_anomaly = True, memory_anomaly = False,
      latency_anomaly = False, disk_anomaly = False, io_anomaly = False,
      error_rate_anomaly = False, temperature_anomaly = False, power_anomaly = False,
      service_anomaly = False, anomaly_summary = ''CPU'', severity_score = 2,
      analysis_method = ''classic''\<rparr>"

definition db_analysed :: database where
  "db_analysed =
     \<lparr>metrics_rows = [1 \<mapsto> snapshot_example\<lparr>is_anomalous := True, analysis_completed := True\<rparr>],
      detections = [1 \<mapsto> existing_example]\<rparr>"

text \<open>The store after the AI analysis of the example snapshot with that last reply.\<close>

definition db_after_failed_save :: database where
  "db_after_failed_save =
     snd (llm_analyze_metrics py_stub True replies_critical_text db_example snapshot_example)"

section \<open>Recommendation reports (recommendations/models.py)\<close>

text \<open>
  A stored report; \<open>metrics\<close> is a \<open>OneToOneField\<close>, so the table maps a snapshot id to at
  most one report. The actions are kept as JSON, \<open>{'actions': [...]}\<close>.
\<close>

record RecommendationReport =
  report_metrics :: nat
  report_executive_summary :: string
  report_detailed_analysis :: string
  recommendations_json :: json
  report_priority_level :: string
  report_estimated_impact :: string
  report_implementation_timeframe :: string
  generation_method :: string

type_synonym report_table = "nat \<rightharpoonup> RecommendationReport"

definition action_json :: "action \<Rightarrow> json" where
  "action_json a =
     JObj [(''title'', JStr (title a)), (''description'', JStr (description a)),
           (''priority'', JStr (priority a)), (''category'', JStr (category a))]"

text \<open>The dict that \<open>generate_recommendations\<close> of the rule-based generator returns.\<close>

definition response_json :: "response \<Rightarrow> (string \<times> json) list" where
  "response_json r =
     [(''executive_summary'', JStr (executive_summary r)),
      (''detailed_analysis'', JStr (detailed_analysis r)),
      (''recommendations'', JArr (map action_json (recommendations r))),
      (''priority_level'', JStr (priority_level r)),
      (''estimated_impact'', JStr (estimated_impact r)),
      (''implementation_timeframe'', JStr (implementation_timeframe r))]"

text \<open>
  A value handed to a \<open>CharField\<close> or \<open>TextField\<close>: a string is stored as it is, \<open>None\<close>
  violates the NOT NULL constraint, anything else is stored as its \<open>str()\<close>.
\<close>

definition char_field :: "py_builtins \<Rightarrow> json \<Rightarrow> exn + string" where
  "char_field py v =
     (case v of JStr s \<Rightarrow> Inr s | JNull \<Rightarrow> Inl IntegrityError | _ \<Rightarrow> Inr (str_json py v))"

text \<open>\<open>data[key]\<close> on a dict.\<close>

definition item :: "(string \<times> json) list \<Rightarrow> string \<Rightarrow> exn + json" where
  "item kvs k = (case map_of kvs k of None \<Rightarrow> Inl KeyError | Some v \<Rightarrow> Inr v)"

text \<open>
  \<open>RecommendationReport.objects.update_or_create(metrics=metrics, defaults={...})\<close> on the
  dict of a generator: the report of the snapshot is created or replaced.
\<close>

definition update_or_create ::
  "py_builtins \<Rightarrow> database \<Rightarrow> report_table \<Rightarrow> nat \<Rightarrow> (string \<times> json) list \<Rightarrow> string
     \<Rightarrow> exn + (RecommendationReport \<times> report_table)" where
  "update_or_create py db reports mid data method =
     andthen (item data ''executive_summary'') (\<lambda>es.
     andthen (item data ''detailed_analysis'') (\<lambda>da.
     andthen (item data ''recommendations'') (\<lambda>recs.
     andthen (item data ''priority_level'') (\<lambda>pl.
     andthen (item data ''estimated_impact'') (\<lambda>ei.
     andthen (item data ''implementation_timeframe'') (\<lambda>tf.
     andthen (char_field py es) (\<lambda>es'.
     andthen (char_field py da) (\<lambda>da'.
     andthen (char_field py pl) (\<lambda>pl'.
     andthen (char_field py ei) (\<lambda>ei'.
     andthen (char_field py tf) (\<lambda>tf'.
       if metrics_rows db mid = None then Inl IntegrityError
       else
         (let report = \<lparr>report_metrics = mid,
                         report_executive_summary = es',
                         report_detailed_analysis = da',
                         recommendations_json = JObj [(''actions'', recs)],
                         report_priority_level = pl',
                         report_estimated_impact = ei',
                         report_implementation_timeframe = tf',
                         generation_method = method\<rparr>
          in Inr (report, reports(mid \<mapsto> report))))))))))))))"

text \<open>The summary of the snapshot's Anomaly Result, when it has one.\<close>

definition anomalies_summary_of :: "database \<Rightarrow> InfrastructureMetrics \<Rightarrow> string" where
  "anomalies_summary_of db metrics =
     (case detections db (metrics_id metrics) of
        None \<Rightarrow> (''Aucune anomalie d'' @ [CHR 0xE9] @ ''tect'' @ [CHR 0xE9] @ ''e'')
      | Some anomaly_detection \<Rightarrow> anomaly_summary anomaly_detection)"

text \<open>\<open>generate_report\<close> of the rule-based generator.\<close>

definition generate_report ::
  "py_builtins \<Rightarrow> database \<Rightarrow> report_table \<Rightarrow> InfrastructureMetrics
     \<Rightarrow> RecommendationReport option \<times> report_table" where
  "generate_report py db reports metrics =
     (let recommendations_data =
            response_json (generate_recommendations py metrics (anomalies_summary_of db metrics))
      in case update_or_create py db reports (metrics_id metrics) recommendations_data ''classic'' of
           Inl e \<Rightarrow> (None, reports)
         | Inr (report, reports') \<Rightarrow> (Some report, reports'))"

section \<open>AI recommendation generator (recommendations/services/llm)\<close>

subsection \<open>The engine (engine.py)\<close>

text \<open>
  The replies are what \<open>call_json_completion\<close> returned for the primary and for the
  focused request: \<open>None\<close> when the completion failed, else the parsed value.
\<close>

definition call_json_completion :: "(string \<Rightarrow> exn + json) \<Rightarrow> string option \<Rightarrow> exn + json option" where
  "call_json_completion loads raw_response =
     (case raw_response of
        None \<Rightarrow> Inr None
      | Some raw \<Rightarrow>
          (if raw = [] then Inr None
           else andthen (parse_json_response loads raw) (\<lambda>j. Inr (Some j))))"

definition required_fields :: "string list" where
  "required_fields =
     [''executive_summary'', ''detailed_analysis'', ''recommendations'',
      ''priority_level'', ''estimated_impact'', ''implementation_timeframe'']"

definition get_default_value :: "string \<Rightarrow> json" where
  "get_default_value field =
     lookup
       [(''executive_summary'', JStr (''Recommandations g'' @ [CHR 0xE9] @ ''n'' @ [CHR 0xE9] @ ''r'' @ [CHR 0xE9] @ ''es par analyse LLM.'')),
        (''detailed_analysis'', JStr (''Analyse d'' @ [CHR 0xE9] @ ''taill'' @ [CHR 0xE9] @ ''e des m'' @ [CHR 0xE9] @ ''triques syst'' @ [CHR 0xE8] @ ''me.'')),
        (''recommendations'', JArr []),
        (''priority_level'', JStr ''medium''),
        (''estimated_impact'', JStr (''Am'' @ [CHR 0xE9] @ ''lioration des performances syst'' @ [CHR 0xE8] @ ''me'')),
        (''implementation_timeframe'', JStr ''1-2 semaines'')]
       field (JStr [])"

text \<open>\<open>len(x)\<close> is defined on strings, lists and dicts.\<close>

definition py_len :: "json \<Rightarrow> exn + nat" where
  "py_len x =
     (case x of
        JStr s \<Rightarrow> Inr (length s)
      | JArr xs \<Rightarrow> Inr (length xs)
      | JObj kvs \<Rightarrow> Inr (length kvs)
      | _ \<Rightarrow> Inl TypeError)"

text \<open>
  \<open>_estimate_confidence\<close>; the sum is taken in exact arithmetic (the float sum differs from
  it in the last digits), and no other function reads it.
\<close>

definition estimate_confidence :: "(string \<times> json) list \<Rightarrow> exn + real" where
  "estimate_confidence response =
     andthen (py_len (lookup response ''recommendations'' (JArr []))) (\<lambda>n_recs.
     andthen (py_len (lookup response ''detailed_analysis'' (JStr []))) (\<lambda>n_analysis.
     andthen (py_len (lookup response ''executive_summary'' (JStr []))) (\<lambda>n_summary.
       (case lookup response ''implementation_timeframe'' (JStr []) of
          JStr timeframe \<Rightarrow>
            Inr (min (5 / 10
                      + (if n_recs \<ge> 3 then 2 / 10 else 0)
                      + (if n_analysis > 100 then 1 / 10 else 0)
                      + (if n_summary > 50 then 1 / 10 else 0)
                      + (if list_ex (\<lambda>word. contains (lower timeframe) word)
                              [''jour'', ''semaine'', ''heure'']
                         then 1 / 10 else 0))
                     1)
        | _ \<Rightarrow> Inl AttributeError))))"

definition valid_priorities :: "string list" where
  "valid_priorities = [''low'', ''medium'', ''high'', ''critical'']"

definition is_valid_priority :: "json \<Rightarrow> bool" where
  "is_valid_priority v = (case v of JStr p \<Rightarrow> p \<in> set valid_priorities | _ \<Rightarrow> False)"

text \<open>
  \<open>_validate_and_enrich_response\<close>. A reply that is not a dict makes the first subscript
  assignment or read raise.
\<close>

definition validate_and_enrich_response ::
  "json \<Rightarrow> InfrastructureMetrics \<Rightarrow> exn + (string \<times> json) list" where
  "validate_and_enrich_response response metrics =
     (case response of
        JObj kvs \<Rightarrow>
          (let r1 = fold (\<lambda>field r. if map_of r field = None
                                    then AList.update field (get_default_value field) r else r)
                      required_fields kvs;
               r2 = (case lookup r1 ''recommendations'' JNull of
                       JArr xs \<Rightarrow> r1
                     | _ \<Rightarrow> AList.update ''recommendations'' (JArr []) r1);
               r3 = AList.update ''metrics_id'' (JInt (int (metrics_id metrics)))
                      (AList.update ''analysis_type'' (JStr ''llm_recommendations'') r2)
           in andthen (estimate_confidence r3) (\<lambda>confidence.
                (let r4 = AList.update ''llm_confidence'' (JFloat confidence) r3
                 in Inr (if is_valid_priority (lookup r4 ''priority_level'' JNull) then r4
                         else AList.update ''priority_level'' (JStr ''medium'') r4))))
      | _ \<Rightarrow> Inl TypeError)"

definition engine_generate_recommendations ::
  "bool \<Rightarrow> json option \<Rightarrow> InfrastructureMetrics \<Rightarrow> (string \<times> json) list option" where
  "engine_generate_recommendations available reply metrics =
     (if \<not> available then None
      else
        (case reply of
           None \<Rightarrow> None
         | Some response \<Rightarrow>
             (if truthy response then
                (case validate_and_enrich_response response metrics of
                   Inl e \<Rightarrow> None
                 | Inr r \<Rightarrow> Some r)
              else None)))"

definition engine_generate_focused_recommendations ::
  "bool \<Rightarrow> json option \<Rightarrow> string \<Rightarrow> (string \<times> json) list option" where
  "engine_generate_focused_recommendations available reply focus_area =
     (if \<not> available then None
      else
        (case reply of
           None \<Rightarrow> None
         | Some response \<Rightarrow>
             (if truthy response then
                (case response of
                   JObj kvs \<Rightarrow>
                     Some (AList.update ''analysis_type'' (JStr ''focused_optimization'')
                             (AList.update ''focus_area'' (JStr focus_area) kvs))
                 | _ \<Rightarrow> None)
              else None)))"

subsection \<open>The generator (generator.py)\<close>

definition detect_critical_areas :: "InfrastructureMetrics \<Rightarrow> string list" where
  "detect_critical_areas metrics =
     (if cpu_usage metrics > 85 then [''cpu''] else [])
     @ (if memory_usage metrics > 85 then [''memory''] else [])
     @ (if disk_usage metrics > 85 then [''storage''] else [])
     @ (if latency_ms metrics > 500 then [''network''] else [])
     @ (if has_degraded_services metrics then [''services''] else [])"

text \<open>
  The loop \<open>for rec in focused_recommendations[:2]: rec['source'] = ...;
  base_recommendations.append(rec)\<close>. The list is appended to in place, so the items added
  before an exception stay; the result is the list and whether the loop completed.
\<close>

fun append_focused :: "string \<Rightarrow> json list \<Rightarrow> json list \<Rightarrow> json list \<times> bool" where
  "append_focused src [] acc = (acc, True)"
| "append_focused src (JObj kvs # rest) acc =
     append_focused src rest (acc @ [JObj (AList.update ''source'' (JStr src) kvs)])"
| "append_focused src (x # rest) acc = (acc, False)"

text \<open>\<open>x += s\<close> for a string \<open>s\<close>: concatenation on a string, extension by the characters on a list.\<close>

definition iadd_str :: "json \<Rightarrow> string \<Rightarrow> exn + json" where
  "iadd_str x s =
     (case x of
        JStr t \<Rightarrow> Inr (JStr (t @ s))
      | JArr xs \<Rightarrow> Inr (JArr (xs @ map (\<lambda>c. JStr [c]) s))
      | _ \<Rightarrow> Inl TypeError)"

definition enrich_recommendations ::
  "bool \<Rightarrow> json option \<Rightarrow> (string \<times> json) list \<Rightarrow> InfrastructureMetrics \<Rightarrow> (string \<times> json) list" where
  "enrich_recommendations available focused_reply recs metrics =
     (case detect_critical_areas metrics of
        [] \<Rightarrow> recs
      | primary_area # others \<Rightarrow>
          (if \<not> available then recs
           else
             (case engine_generate_focused_recommendations available focused_reply primary_area of
                None \<Rightarrow> recs
              | Some focused_analysis \<Rightarrow>
                  (case map_of focused_analysis ''recommendations'' of
                     None \<Rightarrow> recs
                   | Some focused_recommendations \<Rightarrow>
                       (case lookup recs ''recommendations'' (JArr []) of
                          JArr base_recommendations \<Rightarrow>
                            (case andthen (py_slice_to 2 focused_recommendations) py_iter of
                               Inl e \<Rightarrow> recs
                             | Inr firsts \<Rightarrow>
                                 (let (appended, completed) =
                                        append_focused (''focused_'' @ primary_area) firsts
                                          base_recommendations;
                                      r1 = AList.update ''recommendations'' (JArr appended) recs
                                  in if \<not> completed then r1
                                     else
                                       (case map_of r1 ''detailed_analysis'' of
                                          None \<Rightarrow> r1
                                        | Some analysis \<Rightarrow>
                                            (case iadd_str analysis
                                                    (('' Analyse cibl'' @ [CHR 0xE9] @ ''e '') @ primary_area @ '' incluse.'') of
                                               Inl e \<Rightarrow> r1
                                             | Inr analysis' \<Rightarrow>
                                                 AList.update ''detailed_analysis'' analysis' r1))))
                        | _ \<Rightarrow> recs)))))"

definition get_fallback_recommendations ::
  "py_builtins \<Rightarrow> InfrastructureMetrics \<Rightarrow> string \<Rightarrow> (string \<times> json) list" where
  "get_fallback_recommendations py metrics anomalies_summary =
     (let r = generate_recommendations py metrics anomalies_summary
      in AList.update ''detailed_analysis''
           (JStr (detailed_analysis r @ '' (Analyse LLM temporairement indisponible)''))
           (AList.update ''analysis_type'' (JStr ''llm_fallback'') (response_json r)))"

definition llm_generate_recommendations ::
  "py_builtins \<Rightarrow> bool \<Rightarrow> json option \<Rightarrow> json option \<Rightarrow> InfrastructureMetrics \<Rightarrow> string
     \<Rightarrow> (string \<times> json) list" where
  "llm_generate_recommendations py available primary_reply focused_reply metrics anomalies_summary =
     (if \<not> available then get_fallback_recommendations py metrics anomalies_summary
      else
        (case engine_generate_recommendations available primary_reply metrics of
           None \<Rightarrow> get_fallback_recommendations py metrics anomalies_summary
         | Some recs \<Rightarrow>
             (if recs \<noteq> [] then enrich_recommendations available focused_reply recs metrics
              else get_fallback_recommendations py metrics anomalies_summary)))"

definition llm_generate_report ::
  "py_builtins \<Rightarrow> bool \<Rightarrow> json option \<Rightarrow> json option \<Rightarrow> database \<Rightarrow> report_table
     \<Rightarrow> InfrastructureMetrics \<Rightarrow> RecommendationReport option \<times> report_table" where
  "llm_generate_report py available primary_reply focused_reply db reports metrics =
     (let recommendations_data =
            llm_generate_recommendations py available primary_reply focused_reply metrics
              (anomalies_summary_of db metrics)
      in case update_or_create py db reports (metrics_id metrics) recommendations_data ''llm'' of
           Inl e \<Rightarrow> (None, reports)
         | Inr (report, reports') \<Rightarrow> (Some report, reports'))"

section \<open>The priority of a report and of its actions\<close>

text \<open>
  The specification's words: the ordering low, medium, high, critical; the priority of an
  action; the highest priority among the actions of a report (low when it has none).
\<close>

definition action_priority_idx :: "json \<Rightarrow> nat" where
  "action_priority_idx a =
     (case a of
        JObj kvs \<Rightarrow> (case map_of kvs ''priority'' of Some (JStr p) \<Rightarrow> priority_idx p | _ \<Rightarrow> 0)
      | _ \<Rightarrow> 0)"

definition report_actions :: "RecommendationReport \<Rightarrow> json list" where
  "report_actions report =
     (case recommendations_json report of
        JObj kvs \<Rightarrow> (case map_of kvs ''actions'' of Some (JArr actions) \<Rightarrow> actions | _ \<Rightarrow> [])
      | _ \<Rightarrow> [])"

definition max_action_priority :: "RecommendationReport \<Rightarrow> nat" where
  "max_action_priority report = fold max (map action_priority_idx (report_actions report)) 0"

definition priority_is_max :: "RecommendationReport \<Rightarrow> bool" where
  "priority_is_max report =
     (report_priority_level report \<in> set priority_order
      \<and> priority_idx (report_priority_level report) = max_action_priority report)"

section \<open>Priorities in the specification's words, and auxiliary views of the generators\<close>

text \<open>A reply of the model whose overall priority is low although its action is critical.\<close>

definition reply_low_with_critical :: "(string \<times> json) list" where
  "reply_low_with_critical =
     [(''executive_summary'', JStr ''CPU sature''),
      (''detailed_analysis'', JStr ''Charge CPU soutenue''),
      (''recommendations'',
       JArr [JObj [(''title'', JStr ''Ajouter des coeurs''),
                   (''description'', JStr ''Doubler la capacite CPU''),
                   (''priority'', JStr ''critical''),
                   (''category'', JStr ''performance'')]]),
      (''priority_level'', JStr ''low''),
      (''estimated_impact'', JStr ''fort''),
      (''implementation_timeframe'', JStr ''1 jour'')]"

text \<open>
  The overall priority that a report of the AI path carries: the level stated by the
  model when it is one of the four levels, else medium.
\<close>

definition spec_llm_priority :: "(string \<times> json) list \<Rightarrow> string" where
  "spec_llm_priority reply =
     (case map_of reply ''priority_level'' of
        Some (JStr p) \<Rightarrow> (if p \<in> set valid_priorities then p else ''medium'')
      | _ \<Rightarrow> ''medium'')"

text \<open>
  The highest priority among a list of rule-based actions, and the invariant of the
  generator's accumulation: the running level is that maximum.
\<close>

definition max_priority_of :: "action list \<Rightarrow> nat" where
  "max_priority_of recs = fold max (map (\<lambda>a. priority_idx (priority a)) recs) 0"

definition rules_state_ok :: "action list \<times> string \<Rightarrow> bool" where
  "rules_state_ok st =
     (snd st \<in> set priority_order \<and> priority_idx (snd st) = max_priority_of (fst st))"

text \<open>The report written from a response of the rule-based generator.\<close>

definition classic_report :: "nat \<Rightarrow> response \<Rightarrow> string \<Rightarrow> string \<Rightarrow> RecommendationReport" where
  "classic_report mid r analysis method =
     \<lparr>report_metrics = mid,
      report_executive_summary = executive_summary r,
      report_detailed_analysis = analysis,
      recommendations_json = JObj [(''actions'', JArr (map action_json (recommendations r)))],
      report_priority_level = priority_level r,
      report_estimated_impact = estimated_impact r,
      report_implementation_timeframe = implementation_timeframe r,
      generation_method = method\<rparr>"

text \<open>
  The two halves of \<open>_validate_and_enrich_response\<close>: the reply with its missing fields
  filled and its metadata added, and the final check of the priority level.
\<close>

definition prepared_response :: "(string \<times> json) list \<Rightarrow> InfrastructureMetrics \<Rightarrow> (string \<times> json) list" where
  "prepared_response kvs metrics =
     (let r1 = fold (\<lambda>field r. if map_of r field = None
                                    then AList.update field (get_default_value field) r else r)
                      required_fields kvs;
          r2 = (case lookup r1 ''recommendations'' JNull of
                       JArr xs \<Rightarrow> r1
                     | _ \<Rightarrow> AList.update ''recommendations'' (JArr []) r1)
      in AList.update ''metrics_id'' (JInt (int (metrics_id metrics)))
                      (AList.update ''analysis_type'' (JStr ''llm_recommendations'') r2))"

definition checked_priority :: "(string \<times> json) list \<Rightarrow> (string \<times> json) list" where
  "checked_priority r4 =
     (if is_valid_priority (lookup r4 ''priority_level'' JNull) then r4
      else AList.update ''priority_level'' (JStr ''medium'') r4)"

section \<open>Properties of the threshold detector\<close>

lemma point_weight:
  "distinct (map fst ws) \<Longrightarrow>
     (\<Sum>p\<leftarrow>ws. if fst p = k \<and> v then snd p else 0)
       = (case map_of ws k of Some w \<Rightarrow> (if v then w else 0) | None \<Rightarrow> (0::int))"
proof (induction ws)
  case Nil
  show ?case by simp
next
  case (Cons p ws)
  obtain k' w' where p: "p = (k', w')" by (cases p)
  from Cons.prems p have notin: "k' \<notin> fst ` set ws" and d: "distinct (map fst ws)"
    by auto
  show ?case
  proof (cases "k' = k")
    case True
    with notin have "map_of ws k = None" by (simp add: map_of_eq_None_iff)
    with Cons.IH [OF d] True p show ?thesis by (simp split: option.splits)
  next
    case False
    with Cons.IH [OF d] p show ?thesis by simp
  qed
qed

lemma score_step_add:
  "score_step (k, v) s
     = s + (case map_of weights k of Some w \<Rightarrow> (if v then w else 0) | None \<Rightarrow> 0)"
  by (simp add: score_step_def split: option.splits)

lemma fold_score_step:
  "distinct (map fst xs) \<Longrightarrow>
     fold score_step xs s
       = s + (\<Sum>p\<leftarrow>weights. if map_of xs (fst p) = Some True then snd p else 0)"
proof (induction xs arbitrary: s)
  case Nil
  show ?case by simp
next
  case (Cons x xs)
  obtain k v where x: "x = (k, v)" by (cases x)
  from Cons.prems x have notin: "map_of xs k = None" and d: "distinct (map fst xs)"
    by (auto simp: map_of_eq_None_iff)
  have dw: "distinct (map fst weights)" by (simp add: weights_def)
  have pointwise:
    "(if map_of (x # xs) (fst p) = Some True then snd p else 0)
       = (if map_of xs (fst p) = Some True then snd p else 0)
         + (if fst p = k \<and> v then snd p else (0::int))" for p :: "string \<times> int"
    using notin by (simp add: x)
  have split_sum:
    "(\<Sum>p\<leftarrow>weights. if map_of (x # xs) (fst p) = Some True then snd p else 0)
       = (\<Sum>p\<leftarrow>weights. if map_of xs (fst p) = Some True then snd p else 0)
         + (\<Sum>p\<leftarrow>weights. if fst p = k \<and> v then snd p else 0)"
    by (simp only: pointwise sum_list_addf)
  have "fold score_step (x # xs) s = fold score_step xs (score_step (k, v) s)"
    by (simp add: x)
  also have "\<dots> = score_step (k, v) s
       + (\<Sum>p\<leftarrow>weights. if map_of xs (fst p) = Some True then snd p else 0)"
    by (rule Cons.IH [OF d])
  finally show ?case
    by (simp only: split_sum point_weight [OF dw] score_step_add)
qed

lemma weights_sum_unfold:
  "(\<Sum>p\<leftarrow>weights. if map_of a (fst p) = Some True then snd p else 0)
     = 3 * (flag_on a ''disk_anomaly'' + flag_on a ''error_rate_anomaly''
             + flag_on a ''service_anomaly'')
        + 2 * (flag_on a ''cpu_anomaly'' + flag_on a ''memory_anomaly''
               + flag_on a ''latency_anomaly'' + flag_on a ''temperature_anomaly'')
        + 1 * (flag_on a ''io_anomaly'' + flag_on a ''power_anomaly'')"
  by (simp add: weights_def flag_on_def)

lemma score_eq_spec:
  assumes "distinct (map fst a)"
  shows "calculate_severity_score a = spec_score a"
proof -
  have "fold score_step a 0
      = (\<Sum>p\<leftarrow>weights. if map_of a (fst p) = Some True then snd p else 0)"
    using fold_score_step [OF assms, of 0] by simp
  then show ?thesis
    by (simp only: calculate_severity_score_def spec_score_def weights_sum_unfold min.commute)
qed

lemma flag_on_range: "0 \<le> flag_on a n \<and> flag_on a n \<le> 1"
  by (simp add: flag_on_def)

lemma spec_score_range: "0 \<le> spec_score a \<and> spec_score a \<le> 10"
proof -
  have "0 \<le> flag_on a n" for n by (simp add: flag_on_def)
  then show ?thesis unfolding spec_score_def
    by (intro conjI min.boundedI add_nonneg_nonneg mult_nonneg_nonneg) simp_all
qed

lemma spec_score_all_true: "all_nine_true a \<Longrightarrow> spec_score a = 10"
  by (simp add: all_nine_true_def weights_def spec_score_def flag_on_def)

text \<open>
  C5. For every flag dictionary the threshold detector's score is the minimum of 10 and
  the sum of the weights of the flags that are true (3 for disk, error-rate and service,
  2 for cpu, memory, latency and temperature, 1 for io and power); it is therefore an
  integer between 0 and 10, and it is 10 when all nine flags are true.
\<close>

theorem C5_score_is_capped_weighted_sum:
  assumes "distinct (map fst anomalies)"
  shows "calculate_severity_score anomalies = spec_score anomalies
       \<and> 0 \<le> calculate_severity_score anomalies
       \<and> calculate_severity_score anomalies \<le> 10
       \<and> (all_nine_true anomalies \<longrightarrow> calculate_severity_score anomalies = 10)"
  using assms score_eq_spec spec_score_range spec_score_all_true by simp

theorem C5_score_witness:
  "distinct (map fst [(''disk_anomaly'', True), (''cpu_anomaly'', False), (''io_anomaly'', True)])
   \<and> calculate_severity_score [(''disk_anomaly'', True), (''cpu_anomaly'', False), (''io_anomaly'', True)] = 4
   \<and> all_nine_true (map (\<lambda>p. (fst p, True)) weights)
   \<and> calculate_severity_score (map (\<lambda>p. (fst p, True)) weights) = 10"
proof -
  have d1: "distinct (map fst [(''disk_anomaly'', True), (''cpu_anomaly'', False), (''io_anomaly'', True)])"
    by simp
  have d2: "distinct (map fst (map (\<lambda>p. (fst p, True)) weights))"
    by (simp add: weights_def)
  have a2: "all_nine_true (map (\<lambda>p. (fst p, True)) weights)"
    by (simp add: all_nine_true_def weights_def)
  have s1: "spec_score [(''disk_anomaly'', True), (''cpu_anomaly'', False), (''io_anomaly'', True)] = 4"
    by (simp add: spec_score_def flag_on_def)
  from C5_score_is_capped_weighted_sum [OF d1] C5_score_is_capped_weighted_sum [OF d2] d1 a2 s1
  show ?thesis by simp
qed

section \<open>Properties of the rule-based generator\<close>

lemma fst_add_rec: "fst (add_rec r st) = fst st @ opt_list r"
  by (simp add: add_rec_def opt_list_def split: option.splits)

lemma fst_fired_rules:
  "fst (fired_rules fmt m) =
     opt_list (analyze_cpu fmt (cpu_usage m)) @ opt_list (analyze_memory fmt (memory_usage m))
     @ opt_list (analyze_disk fmt (disk_usage m)) @ opt_list (analyze_latency fmt (latency_ms m))
     @ opt_list (analyze_temperature fmt (temperature_celsius m))
     @ opt_list (analyze_services m) @ opt_list (analyze_errors fmt (error_rate m))"
  by (simp add: fired_rules_def fst_add_rec)

lemma analyze_cpu_cases:
  "analyze_cpu fmt x =
     (if x \<ge> 95 then
        Some ((recommendations_critical rules_cpu)
               \<lparr>description := ''CPU '' @ [CHR 0xE0] @ '' '' @ str_float fmt x @ ''%. ''
                   @ description (recommendations_critical rules_cpu)\<rparr>)
      else if x \<ge> 80 then
        Some ((recommendations_high rules_cpu)
               \<lparr>description := ''CPU '' @ [CHR 0xE0] @ '' '' @ str_float fmt x @ ''%. ''
                   @ description (recommendations_high rules_cpu)\<rparr>)
      else None)"
  by (simp add: analyze_cpu_def Let_def rules_cpu_def)

lemma not_cpu_memory: "filter is_cpu_action (opt_list (analyze_memory fmt x)) = []"
  by (simp add: opt_list_def analyze_memory_def Let_def rules_memory_def rules_cpu_def is_cpu_action_def)
lemma not_cpu_disk: "filter is_cpu_action (opt_list (analyze_disk fmt x)) = []"
  by (simp add: opt_list_def analyze_disk_def Let_def rules_disk_def rules_cpu_def is_cpu_action_def)
lemma not_cpu_latency: "filter is_cpu_action (opt_list (analyze_latency fmt x)) = []"
  by (simp add: opt_list_def analyze_latency_def Let_def rules_latency_def rules_cpu_def is_cpu_action_def)
lemma not_cpu_temperature: "filter is_cpu_action (opt_list (analyze_temperature fmt x)) = []"
  by (simp add: opt_list_def analyze_temperature_def Let_def rules_temperature_def rules_cpu_def is_cpu_action_def)
lemma not_cpu_services: "filter is_cpu_action (opt_list (analyze_services m)) = []"
  by (simp add: opt_list_def analyze_services_def Let_def rules_cpu_def is_cpu_action_def)
lemma not_cpu_errors: "filter is_cpu_action (opt_list (analyze_errors fmt x)) = []"
  by (simp add: opt_list_def analyze_errors_def Let_def rules_cpu_def is_cpu_action_def)
lemma not_cpu_monitoring: "\<not> is_cpu_action monitoring_action"
  by (simp add: monitoring_action_def rules_cpu_def is_cpu_action_def)

lemma cpu_actions_of_report:
  "filter is_cpu_action (recommendations (generate_recommendations fmt m s))
     = filter is_cpu_action (opt_list (analyze_cpu fmt (cpu_usage m)))"
  by (simp add: generate_recommendations_def build_response_def Let_def fst_fired_rules
        not_cpu_memory not_cpu_disk not_cpu_latency not_cpu_temperature not_cpu_services
        not_cpu_errors not_cpu_monitoring)

text \<open>
  C8. In the rule-based generator a snapshot with CPU usage 96 yields exactly the critical
  CPU action and not the high one, CPU usage 82 yields the high action, and CPU usage 50
  yields no CPU action: the critical tier is checked before the high tier.
\<close>

theorem C8_cpu_tiers:
  "filter is_cpu_action (recommendations (generate_recommendations fmt (m\<lparr>cpu_usage := 96\<rparr>) s))
     = [(recommendations_critical rules_cpu)
          \<lparr>description := ''CPU '' @ [CHR 0xE0] @ '' '' @ str_float fmt 96 @ ''%. ''
              @ description (recommendations_critical rules_cpu)\<rparr>]
   \<and> map priority
         (filter is_cpu_action (recommendations (generate_recommendations fmt (m\<lparr>cpu_usage := 96\<rparr>) s)))
       = [''critical'']
   \<and> filter is_cpu_action (recommendations (generate_recommendations fmt (m\<lparr>cpu_usage := 82\<rparr>) s))
     = [(recommendations_high rules_cpu)
          \<lparr>description := ''CPU '' @ [CHR 0xE0] @ '' '' @ str_float fmt 82 @ ''%. ''
              @ description (recommendations_high rules_cpu)\<rparr>]
   \<and> map priority
         (filter is_cpu_action (recommendations (generate_recommendations fmt (m\<lparr>cpu_usage := 82\<rparr>) s)))
       = [''high'']
   \<and> filter is_cpu_action (recommendations (generate_recommendations fmt (m\<lparr>cpu_usage := 50\<rparr>) s))
     = []
   \<and> analyze_cpu fmt 50 = None
   \<and> map_option priority (analyze_cpu fmt x)
       = (if x \<ge> critical_threshold rules_cpu then Some ''critical''
          else if x \<ge> high_threshold rules_cpu then Some ''high'' else None)"
  by (simp add: cpu_actions_of_report analyze_cpu_cases opt_list_def is_cpu_action_def rules_cpu_def)

lemma detect_flags:
  "map_of (detect_anomalies thr m) ''cpu_anomaly''
     = Some (cpu_usage m > get_default thr ''cpu_usage'' 80)"
  "map_of (detect_anomalies thr m) ''memory_anomaly''
     = Some (memory_usage m > get_default thr ''memory_usage'' 85)"
  "map_of (detect_anomalies thr m) ''latency_anomaly''
     = Some (latency_ms m > get_default thr ''latency_ms'' 500)"
  "map_of (detect_anomalies thr m) ''disk_anomaly''
     = Some (disk_usage m > get_default thr ''disk_usage'' 90)"
  "map_of (detect_anomalies thr m) ''io_anomaly''
     = Some (io_wait m > get_default thr ''io_wait'' 20)"
  "map_of (detect_anomalies thr m) ''error_rate_anomaly''
     = Some (error_rate m > get_default thr ''error_rate'' (5 / 100))"
  "map_of (detect_anomalies thr m) ''temperature_anomaly''
     = Some (temperature_celsius m > get_default thr ''temperature_celsius'' 75)"
  "map_of (detect_anomalies thr m) ''power_anomaly''
     = Some (power_consumption_watts m > get_default thr ''power_consumption_watts'' 400)"
  "map_of (detect_anomalies thr m) ''service_anomaly'' = Some (has_degraded_services m)"
  by (simp_all add: detect_anomalies_def Let_def)

lemma tier_fires:
  "(analyze_cpu fmt x = None) = (x < high_threshold rules_cpu)"
  "(analyze_memory fmt x = None) = (x < high_threshold rules_memory)"
  "(analyze_disk fmt x = None) = (x < high_threshold rules_disk)"
  "(analyze_latency fmt x = None) = (x < high_threshold rules_latency)"
  "(analyze_temperature fmt x = None) = (x < high_threshold rules_temperature)"
  by (auto simp add: analyze_cpu_def analyze_memory_def analyze_disk_def analyze_latency_def
        analyze_temperature_def Let_def rules_cpu_def rules_memory_def rules_disk_def
        rules_latency_def rules_temperature_def)

lemma tier_critical:
  "(map_option priority (analyze_cpu fmt x) = Some ''critical'') = (x \<ge> critical_threshold rules_cpu)"
  "(map_option priority (analyze_memory fmt x) = Some ''critical'') = (x \<ge> critical_threshold rules_memory)"
  "(map_option priority (analyze_disk fmt x) = Some ''critical'') = (x \<ge> critical_threshold rules_disk)"
  "(map_option priority (analyze_latency fmt x) = Some ''critical'') = (x \<ge> critical_threshold rules_latency)"
  "(map_option priority (analyze_temperature fmt x) = Some ''critical'') = (x \<ge> critical_threshold rules_temperature)"
  by (auto simp add: analyze_cpu_def analyze_memory_def analyze_disk_def analyze_latency_def
        analyze_temperature_def Let_def rules_cpu_def rules_memory_def rules_disk_def
        rules_latency_def rules_temperature_def)

text \<open>
  C10. Each of the detector's eight numeric flags is true exactly when the measured value
  is strictly greater than its configured threshold, so a value equal to the threshold
  raises no flag; each of the five tier rules of the rule-based generator (CPU, memory,
  disk, latency, temperature) fires its action already at a value equal to the tier
  threshold: an action exactly from the high threshold on, the critical action exactly
  from the critical threshold on.
\<close>

theorem C10_strict_detector_inclusive_generator:
  "map_of (detect_anomalies thr m) ''cpu_anomaly''
     = Some (cpu_usage m > get_default thr ''cpu_usage'' 80)
   \<and> map_of (detect_anomalies thr m) ''memory_anomaly''
     = Some (memory_usage m > get_default thr ''memory_usage'' 85)
   \<and> map_of (detect_anomalies thr m) ''latency_anomaly''
     = Some (latency_ms m > get_default thr ''latency_ms'' 500)
   \<and> map_of (detect_anomalies thr m) ''disk_anomaly''
     = Some (disk_usage m > get_default thr ''disk_usage'' 90)
   \<and> map_of (detect_anomalies thr m) ''io_anomaly''
     = Some (io_wait m > get_default thr ''io_wait'' 20)
   \<and> map_of (detect_anomalies thr m) ''error_rate_anomaly''
     = Some (error_rate m > get_default thr ''error_rate'' (5 / 100))
   \<and> map_of (detect_anomalies thr m) ''temperature_anomaly''
     = Some (temperature_celsius m > get_default thr ''temperature_celsius'' 75)
   \<and> map_of (detect_anomalies thr m) ''power_anomaly''
     = Some (power_consumption_watts m > get_default thr ''power_consumption_watts'' 400)
   \<and> map (map_of (detect_anomalies thr (at_thresholds thr m))) numeric_flags
     = replicate 8 (Some False)
   \<and> (analyze_cpu fmt x = None) = (x < high_threshold rules_cpu)
   \<and> (analyze_memory fmt x = None) = (x < high_threshold rules_memory)
   \<and> (analyze_disk fmt x = None) = (x < high_threshold rules_disk)
   \<and> (analyze_latency fmt x = None) = (x < high_threshold rules_latency)
   \<and> (analyze_temperature fmt x = None) = (x < high_threshold rules_temperature)
   \<and> (map_option priority (analyze_cpu fmt x) = Some ''critical'')
       = (x \<ge> critical_threshold rules_cpu)
   \<and> (map_option priority (analyze_memory fmt x) = Some ''critical'')
       = (x \<ge> critical_threshold rules_memory)
   \<and> (map_option priority (analyze_disk fmt x) = Some ''critical'')
       = (x \<ge> critical_threshold rules_disk)
   \<and> (map_option priority (analyze_latency fmt x) = Some ''critical'')
       = (x \<ge> critical_threshold rules_latency)
   \<and> (map_option priority (analyze_temperature fmt x) = Some ''critical'')
       = (x \<ge> critical_threshold rules_temperature)
   \<and> map_option priority (analyze_cpu fmt (high_threshold rules_cpu)) = Some ''high''
   \<and> map_option priority (analyze_memory fmt (high_threshold rules_memory)) = Some ''high''
   \<and> map_option priority (analyze_disk fmt (high_threshold rules_disk)) = Some ''high''
   \<and> map_option priority (analyze_latency fmt (high_threshold rules_latency)) = Some ''medium''
   \<and> map_option priority (analyze_temperature fmt (high_threshold rules_temperature))
       = Some ''medium''
   \<and> map_option priority (analyze_cpu fmt (critical_threshold rules_cpu)) = Some ''critical''
   \<and> map_option priority (analyze_memory fmt (critical_threshold rules_memory))
       = Some ''critical''
   \<and> map_option priority (analyze_disk fmt (critical_threshold rules_disk)) = Some ''critical''
   \<and> map_option priority (analyze_latency fmt (critical_threshold rules_latency))
       = Some ''critical''
   \<and> map_option priority (analyze_temperature fmt (critical_threshold rules_temperature))
       = Some ''critical''"
proof -
  have at: "map (map_of (detect_anomalies thr (at_thresholds thr m))) numeric_flags
     = replicate 8 (Some False)"
    by (simp add: numeric_flags_def detect_flags at_thresholds_def numeral_eq_Suc)
  have eqs:
    "map_option priority (analyze_cpu fmt (high_threshold rules_cpu)) = Some ''high''"
    "map_option priority (analyze_memory fmt (high_threshold rules_memory)) = Some ''high''"
    "map_option priority (analyze_disk fmt (high_threshold rules_disk)) = Some ''high''"
    "map_option priority (analyze_latency fmt (high_threshold rules_latency)) = Some ''medium''"
    "map_option priority (analyze_temperature fmt (high_threshold rules_temperature))
       = Some ''medium''"
    "map_option priority (analyze_cpu fmt (critical_threshold rules_cpu)) = Some ''critical''"
    "map_option priority (analyze_memory fmt (critical_threshold rules_memory))
       = Some ''critical''"
    "map_option priority (analyze_disk fmt (critical_threshold rules_disk)) = Some ''critical''"
    "map_option priority (analyze_latency fmt (critical_threshold rules_latency))
       = Some ''critical''"
    "map_option priority (analyze_temperature fmt (critical_threshold rules_temperature))
       = Some ''critical''"
    by (simp_all add: analyze_cpu_def analyze_memory_def analyze_disk_def analyze_latency_def
        analyze_temperature_def Let_def rules_cpu_def rules_memory_def rules_disk_def
        rules_latency_def rules_temperature_def)
  show ?thesis
    by (simp only: detect_flags at tier_fires tier_critical eqs simp_thms)
qed

section \<open>Properties of the response robustness layer\<close>

lemma length_takeWhile_less':
  "c \<in> set s \<Longrightarrow> length (takeWhile (\<lambda>x. x \<noteq> c) s) < length s"
  by (induction s) auto

lemma find_from_eq:
  "find_from c s i = (if c \<in> set s then i + int (length (takeWhile (\<lambda>x. x \<noteq> c) s)) else -1)"
  by (induction s arbitrary: i) auto

lemma rfind_from_eq:
  "rfind_from c s i found =
     (if c \<in> set s then i + int (length s) - 1 - int (length (takeWhile (\<lambda>x. x \<noteq> c) (rev s)))
      else found)"
proof (induction s arbitrary: i found)
  case Nil
  show ?case by simp
next
  case (Cons x xs)
  show ?case
  proof (cases "c \<in> set xs")
    case True
    then have "takeWhile (\<lambda>x. x \<noteq> c) (rev xs @ [x]) = takeWhile (\<lambda>x. x \<noteq> c) (rev xs)"
      by (intro takeWhile_append1 [of c]) auto
    with True show ?thesis by (simp add: Cons.IH)
  next
    case False
    then have all: "\<And>y. y \<in> set (rev xs) \<Longrightarrow> y \<noteq> c" by auto
    have tw: "takeWhile (\<lambda>x. x \<noteq> c) (rev xs @ [x]) = rev xs @ takeWhile (\<lambda>x. x \<noteq> c) [x]"
      by (rule takeWhile_append2) (rule all)
    show ?thesis
    proof (cases "x = c")
      case True
      with False tw show ?thesis by (simp add: Cons.IH del: takeWhile_append)
    next
      case neq: False
      with False show ?thesis by (simp add: Cons.IH)
    qed
  qed
qed

lemma trim_to_last_Cons:
  "trim_to_last c (x # xs) = (if c \<notin> set xs \<and> x \<noteq> c then [] else x # trim_to_last c xs)"
  by (auto simp: trim_to_last_def dropWhile_append)

lemma trim_to_last_Nil_iff: "trim_to_last c xs = [] \<longleftrightarrow> c \<notin> set xs"
  by (induction xs) (auto simp: trim_to_last_Cons, simp add: trim_to_last_def)

lemma drop_trim_to_last: "trim_to_last c (drop n xs) = drop n (trim_to_last c xs)"
proof (induction xs arbitrary: n)
  case Nil
  show ?case by (simp add: trim_to_last_def)
next
  case (Cons x xs)
  show ?case
  proof (cases n)
    case 0
    then show ?thesis by simp
  next
    case (Suc k)
    have "c \<notin> set xs \<Longrightarrow> drop k (trim_to_last c xs) = []"
      using trim_to_last_Nil_iff [of c xs] by simp
    with Suc Cons.IH [of k] show ?thesis by (auto simp: trim_to_last_Cons)
  qed
qed

lemma trim_to_last_take:
  "trim_to_last c s = take (length s - length (takeWhile (\<lambda>x. x \<noteq> c) (rev s))) s"
proof -
  let ?P = "\<lambda>x. x \<noteq> c"
  have "rev s = takeWhile ?P (rev s) @ dropWhile ?P (rev s)" by simp
  then have "s = rev (dropWhile ?P (rev s)) @ rev (takeWhile ?P (rev s))"
    by (metis rev_append rev_rev_ident)
  then have s: "s = trim_to_last c s @ rev (takeWhile ?P (rev s))"
    by (simp add: trim_to_last_def)
  have "length s = length (trim_to_last c s) + length (takeWhile ?P (rev s))"
    by (subst s) simp
  then have "length s - length (takeWhile ?P (rev s)) = length (trim_to_last c s)" by simp
  then show ?thesis by (metis s append_eq_conv_conj)
qed

lemma slice_between_braces:
  assumes "CHR ''{'' \<in> set text" and "CHR ''}'' \<in> set text"
  shows "slice text (find text (CHR ''{'')) (rfind text (CHR ''}'') + 1) = spec_between_braces text"
proof -
  let ?a = "takeWhile (\<lambda>x. x \<noteq> CHR ''{'') text"
  let ?t = "takeWhile (\<lambda>x. x \<noteq> CHR ''}'') (rev text)"
  have f: "find text (CHR ''{'') = int (length ?a)"
    using assms by (simp add: find_def find_from_eq)
  have "length ?t < length text"
    using assms(2) length_takeWhile_less' [of "CHR ''}''" "rev text"] by simp
  then have r: "rfind text (CHR ''}'') + 1 = int (length text - length ?t)"
    using assms by (simp add: rfind_def rfind_from_eq)
  have "slice text (int (length ?a)) (int (length text - length ?t))
          = take (length text - length ?t - length ?a) (drop (length ?a) text)"
    by (simp add: slice_def nat_diff_distrib' del: of_nat_diff)
  also have "\<dots> = drop (length ?a) (take (length text - length ?t) text)"
    by (simp add: drop_take)
  also have "\<dots> = drop (length ?a) (trim_to_last (CHR ''}'') text)"
    by (simp add: trim_to_last_take)
  also have "\<dots> = trim_to_last (CHR ''}'') (drop (length ?a) text)"
    by (simp add: drop_trim_to_last)
  also have "drop (length ?a) text = dropWhile (\<lambda>x. x \<noteq> CHR ''{'') text"
    by (simp add: dropWhile_eq_drop)
  finally show ?thesis by (simp add: f r spec_between_braces_def trim_to_last_def)
qed

lemma find_minus_one: "find text c = -1 \<longleftrightarrow> c \<notin> set text"
  by (simp add: find_def find_from_eq)

lemma rfind_zero: "rfind text c + 1 = 0 \<longleftrightarrow> c \<notin> set text"
proof -
  have "length (takeWhile (\<lambda>x. x \<noteq> c) (rev text)) < length text" if "c \<in> set text"
    using that using length_takeWhile_less' [of c "rev text"] by simp
  then show ?thesis by (auto simp add: rfind_def rfind_from_eq)
qed

lemma extract_eq:
  assumes "\<forall>s e. loads s = Inl e \<longrightarrow> e = JSONDecodeError"
  shows "extract_json_from_text loads text =
     (if CHR ''{'' \<in> set text \<and> CHR ''}'' \<in> set text then
        Inr (case loads (spec_between_braces text) of Inr j \<Rightarrow> j | Inl e \<Rightarrow> default_structure_extraction)
      else Inl JSONDecodeError)"
proof (cases "CHR ''{'' \<in> set text \<and> CHR ''}'' \<in> set text")
  case True
  then have g: "\<not> (find text (CHR ''{'') = -1 \<or> rfind text (CHR ''}'') + 1 = 0)"
    by (simp only: find_minus_one rfind_zero) simp
  show ?thesis
  proof (cases "loads (spec_between_braces text)")
    case (Inl e)
    with assms have "e = JSONDecodeError" by blast
    with Inl True g show ?thesis
      by (simp add: extract_json_from_text_def Let_def slice_between_braces)
  next
    case (Inr j)
    with True g show ?thesis
      by (simp add: extract_json_from_text_def Let_def slice_between_braces)
  qed
next
  case False
  then have "find text (CHR ''{'') = -1 \<or> rfind text (CHR ''}'') + 1 = 0"
    by (simp only: find_minus_one rfind_zero) simp
  with False show ?thesis
    by (simp add: extract_json_from_text_def Let_def)
qed

text \<open>
  The three tiers, for a parser that fails with a decode error only: the parse operation
  returns the direct parse of the cleaned text when that succeeds, otherwise the parse of
  the substring from the first opening brace to the last closing brace, otherwise a fixed
  default structure with a non-empty executive summary, an empty list of recommendations
  and priority medium.
\<close>

lemma three_tiers_for_decode_errors:
  assumes "\<forall>s e. loads s = Inl e \<longrightarrow> e = JSONDecodeError"
  shows "parse_json_response loads response = Inr (spec_parse loads response)
       \<and> minimal_valid default_structure
       \<and> minimal_valid default_structure_extraction"
proof -
  have "parse_json_response loads response = Inr (spec_parse loads response)"
  proof (cases "loads (clean_response response)")
    case (Inl e)
    with assms have "e = JSONDecodeError" by blast
    with Inl show ?thesis
      by (simp add: parse_json_response_def spec_parse_def extract_eq [OF assms])
  next
    case (Inr j)
    then show ?thesis by (simp add: parse_json_response_def spec_parse_def)
  qed
  moreover have "minimal_valid default_structure"
    by (simp add: minimal_valid_def default_structure_def)
  moreover have "minimal_valid default_structure_extraction"
    by (simp add: minimal_valid_def default_structure_extraction_def)
  ultimately show ?thesis by simp
qed

lemma three_tiers_examples:
  "parse_json_response toy_loads ''{}'' = Inr (JObj [])
   \<and> parse_json_response toy_loads ''Voici: {} fin'' = Inr (JObj [])
   \<and> parse_json_response toy_loads ''{ x }'' = Inr default_structure_extraction
   \<and> parse_json_response toy_loads ''rien'' = Inr default_structure"
proof -
  have h: "\<forall>s e. toy_loads s = Inl e \<longrightarrow> e = JSONDecodeError"
    by (simp add: toy_loads_def)
  have e1: "spec_parse toy_loads ''{}'' = JObj []" by code_simp
  have e2: "spec_parse toy_loads ''Voici: {} fin'' = JObj []" by code_simp
  have e3: "spec_parse toy_loads ''{ x }'' = default_structure_extraction" by code_simp
  have e4: "spec_parse toy_loads ''rien'' = default_structure" by code_simp
  from three_tiers_for_decode_errors [OF h, of "''{}''"] three_tiers_for_decode_errors [OF h, of "''Voici: {} fin''"]
    three_tiers_for_decode_errors [OF h, of "''{ x }''"] three_tiers_for_decode_errors [OF h, of "''rien''"]
    e1 e2 e3 e4
  show ?thesis by simp
qed

lemma startswith_replicate:
  "p \<noteq> [] \<Longrightarrow> hd p \<noteq> c \<Longrightarrow> \<not> startswith (replicate n c) p"
  by (cases p; cases n) (auto simp: startswith_def)

lemma endswith_replicate:
  "p \<noteq> [] \<Longrightarrow> hd p \<noteq> c \<Longrightarrow> \<not> endswith (replicate n c) p"
  by (cases p) (auto simp: endswith_def min_def dest!: arg_cong [where f = hd] split: if_splits)

lemma strip_replicate: "\<not> isspace c \<Longrightarrow> strip (replicate n c) = replicate n c"
proof -
  assume c: "\<not> isspace c"
  have "dropWhile isspace (replicate n c) = replicate n c" for n
    using c by (cases n) simp_all
  then show ?thesis by (simp add: strip_def)
qed

lemma clean_response_replicate:
  assumes "c \<noteq> CHR 0x60" "c \<noteq> CHR ''j''" "\<not> isspace c"
  shows "clean_response (replicate n c) = replicate n c"
  using assms
  by (simp add: clean_response_def Let_def startswith_replicate endswith_replicate strip_replicate)

lemma limited_loads_deep:
  "limited_loads (replicate 100000 (CHR ''['')) = Inl RecursionError"
  by (simp add: limited_loads_def recursion_limit_def)

lemma limited_loads_long_int:
  "limited_loads (replicate 5000 (CHR ''1'')) = Inl ValueError"
  by (simp add: limited_loads_def recursion_limit_def max_str_digits_def isdigit_def list_all_iff)

text \<open>
  C1. The parse operation of the response robustness layer does raise on some inputs. Its
  first call of the parser is guarded by a handler for decode errors only, so every
  other exception the parser raises on the cleaned text leaves the operation: no second
  or third tier is tried and no default structure is returned. With the standard parser
  this happens for a text of 100000 opening brackets (\<open>RecursionError\<close>) and for an
  integer literal of 5000 digits (\<open>ValueError\<close>).
\<close>

theorem C1_parser_exception_escapes:
  assumes "loads (clean_response response) = Inl e" and "e \<noteq> JSONDecodeError"
  shows "parse_json_response loads response = Inl e"
  using assms by (cases e) (simp_all add: parse_json_response_def)

theorem C1_escape_witness:
  "parse_json_response limited_loads (replicate 100000 (CHR ''['')) = Inl RecursionError
   \<and> parse_json_response limited_loads (replicate 5000 (CHR ''1'')) = Inl ValueError"
  using C1_parser_exception_escapes [of limited_loads "replicate 100000 (CHR ''['')" RecursionError]
    C1_parser_exception_escapes [of limited_loads "replicate 5000 (CHR ''1'')" ValueError]
  by (simp add: clean_response_replicate isspace_def limited_loads_deep limited_loads_long_int)
section \<open>Properties of the availability probes\<close>

lemma service_available_iff:
  "service_is_available (service_init mk settings)
     = (present settings ''AZURE_OPENAI_API_KEY'' \<and> present settings ''AZURE_OPENAI_ENDPOINT''
        \<and> succeeds (mk (getattr settings ''AZURE_OPENAI_API_KEY'' (JStr []))
                  (getattr settings ''AZURE_OPENAI_API_VERSION'' (JStr ''2024-02-01''))
                  (getattr settings ''AZURE_OPENAI_ENDPOINT'' (JStr []))))"
  by (auto simp add: service_is_available_def service_init_def initialize_client_def
        present_def getattr_def succeeds_def split: option.splits sum.splits)

lemma engine_available_iff:
  "engine_is_available (initialize_azure_client mk settings)
     = (spec_configured settings
        \<and> (case settings ''AZURE_OPENAI_API_VERSION'' of
             None \<Rightarrow> False
           | Some ver \<Rightarrow>
               succeeds (mk (getattr settings ''AZURE_OPENAI_API_KEY'' JNull) ver
                      (getattr settings ''AZURE_OPENAI_ENDPOINT'' JNull))))"
  by (auto simp add: engine_is_available_def initialize_azure_client_def required_settings_def
        spec_configured_def present_def getattr_def settings_attr_def Let_def succeeds_def
        split: option.splits sum.splits)

text \<open>
  C9, as stated, fails for the shared completion service: with endpoint and key configured
  and no deployment identifier, the service reports available.
\<close>

theorem C9_counterexample:
  "service_is_available (service_init connects settings_no_deployment)
   \<and> \<not> spec_configured settings_no_deployment"
  by (simp add: service_is_available_def service_init_def initialize_client_def connects_def
        settings_no_deployment_def getattr_def spec_configured_def present_def)

text \<open>
  C9, amended. The engine of the AI anomaly detector reports available exactly when
  endpoint, key and deployment identifier are all present, the API version setting is
  defined and the client constructor succeeds. The shared completion service, used by the
  AI recommendation generator, reports available exactly when key and endpoint are present
  and the client constructor succeeds; it does not require the deployment identifier, which
  defaults to gpt-4. Either component reports unavailable when the endpoint or the key is
  absent.
\<close>

theorem C9_availability_amended:
  "engine_is_available (initialize_azure_client mk settings)
     = (spec_configured settings
        \<and> (case settings ''AZURE_OPENAI_API_VERSION'' of
             None \<Rightarrow> False
           | Some ver \<Rightarrow>
               succeeds (mk (getattr settings ''AZURE_OPENAI_API_KEY'' JNull) ver
                      (getattr settings ''AZURE_OPENAI_ENDPOINT'' JNull))))
   \<and> service_is_available (service_init mk settings)
     = (present settings ''AZURE_OPENAI_API_KEY'' \<and> present settings ''AZURE_OPENAI_ENDPOINT''
        \<and> succeeds (mk (getattr settings ''AZURE_OPENAI_API_KEY'' (JStr []))
                  (getattr settings ''AZURE_OPENAI_API_VERSION'' (JStr ''2024-02-01''))
                  (getattr settings ''AZURE_OPENAI_ENDPOINT'' (JStr []))))"
  by (simp only: engine_available_iff service_available_iff simp_thms)

theorem C9_availability_witness:
  "engine_is_available (initialize_azure_client connects settings_complete)
   \<and> \<not> engine_is_available (initialize_azure_client connects settings_no_deployment)
   \<and> service_is_available (service_init connects settings_complete)
   \<and> \<not> service_is_available (service_init connects Map.empty)"
  using C9_availability_amended [of connects settings_complete]
    C9_availability_amended [of connects settings_no_deployment]
    C9_availability_amended [of connects Map.empty]
  by (simp add: spec_configured_def present_def settings_complete_def
        settings_no_deployment_def getattr_def succeeds_def connects_def)

section \<open>Properties of the AI detector's merge\<close>

lemma map_of_updates:
  "map_of (updates other kvs) k
     = (case map_of (rev other) k of Some v \<Rightarrow> Some v | None \<Rightarrow> map_of kvs k)"
  unfolding updates_def
proof (induction other arbitrary: kvs)
  case Nil
  show ?case by simp
next
  case (Cons kv other)
  show ?case
    by (simp add: Cons.IH update_conv' map_add_def split: option.splits)
qed

lemma merge_severity_eq:
  "merge_severity (JObj base) (JObj sev)
     = Inr (JObj (case map_of sev ''severity_score'' of
                    None \<Rightarrow> updates (risk_fields sev) base
                  | Some v \<Rightarrow> AList.update ''severity_score'' v (updates (risk_fields sev) base)))"
  by (simp add: merge_severity_def risk_fields_def Let_def split: option.splits)

lemma risk_fields_rev: "map_of (rev (risk_fields sev)) k = map_of (risk_fields sev) k"
  by (simp add: risk_fields_def)

lemma risk_fields_no_score: "map_of (risk_fields sev) ''severity_score'' = None"
  by (simp add: risk_fields_def)

lemma merge_severity_obj:
  assumes "merge_severity (JObj base) (JObj sev) = Inr (JObj out)"
  shows "map_of out k = spec_after_severity base sev k"
proof (cases "map_of sev ''severity_score''")
  case None
  with assms have "out = updates (risk_fields sev) base"
    by (simp add: merge_severity_eq)
  with None show ?thesis
    by (auto simp add: map_of_updates risk_fields_rev spec_after_severity_def)
next
  case (Some v)
  with assms have "out = AList.update ''severity_score'' v (updates (risk_fields sev) base)"
    by (simp add: merge_severity_eq)
  with Some show ?thesis
    by (simp add: update_conv' map_of_updates risk_fields_rev risk_fields_no_score
          spec_after_severity_def)
qed

lemma andthen_Inr: "andthen m f = Inr r \<Longrightarrow> \<exists>v. m = Inr v \<and> f v = Inr r"
  by (cases m) (simp_all add: andthen_def)

lemma andthen_simps [simp]:
  "andthen (Inr v) f = f v"
  "andthen (Inl e) f = Inl e"
  by (simp_all add: andthen_def)

lemma length_new_correlations:
  "new_correlations py items = Inr descs \<Longrightarrow> length descs = length items"
proof (induction items arbitrary: descs)
  case Nil
  then show ?case by simp
next
  case (Cons corr rest)
  from Cons.prems obtain d where d: "correlation_desc py corr = Inr d"
    and r: "andthen (new_correlations py rest) (\<lambda>ds. Inr (d # ds)) = Inr descs"
    by (auto dest!: andthen_Inr)
  from r obtain ds where ds: "new_correlations py rest = Inr ds" and "descs = d # ds"
    by (auto dest!: andthen_Inr)
  with Cons.IH [OF ds] show ?case by simp
qed

lemma merge_correlations_Inr:
  assumes "merge_correlations py (JObj c1) cor = Inr r"
  shows "\<exists>strong items descs existing insights.
           dict_get cor ''strong_correlations'' (JArr []) = Inr strong
           \<and> py_iter strong = Inr items
           \<and> new_correlations py items = Inr descs
           \<and> lookup c1 ''correlations_found'' (JArr []) = JArr existing
           \<and> dict_get cor ''insights'' (JArr []) = Inr insights
           \<and> r = JObj (AList.update ''correlation_insights'' insights
                     (AList.update ''correlations_found''
                        (JArr (existing @ map JStr (take 3 descs))) c1))"
proof -
  let ?ex = "lookup c1 ''correlations_found'' (JArr [])"
  from assms obtain strong where
    s0: "dict_get cor ''strong_correlations'' (JArr []) = Inr strong" and
    s1: "andthen (py_iter strong) (\<lambda>items.
              andthen (new_correlations py items) (\<lambda>descs.
                (case ?ex of
                   JArr existing \<Rightarrow>
                     andthen (dict_get cor ''insights'' (JArr [])) (\<lambda>insights.
                       Inr (JObj (AList.update ''correlation_insights'' insights
                              (AList.update ''correlations_found''
                                 (JArr (existing @ map JStr (take 3 descs))) c1))))
                 | _ \<Rightarrow> Inl TypeError))) = Inr r"
    unfolding merge_correlations_def Let_def json.case by (blast dest: andthen_Inr)
  from s1 obtain items where
    i0: "py_iter strong = Inr items" and
    s2: "andthen (new_correlations py items) (\<lambda>descs.
                (case ?ex of
                   JArr existing \<Rightarrow>
                     andthen (dict_get cor ''insights'' (JArr [])) (\<lambda>insights.
                       Inr (JObj (AList.update ''correlation_insights'' insights
                              (AList.update ''correlations_found''
                                 (JArr (existing @ map JStr (take 3 descs))) c1))))
                 | _ \<Rightarrow> Inl TypeError)) = Inr r"
    by (blast dest: andthen_Inr)
  from s2 obtain descs where
    d0: "new_correlations py items = Inr descs" and
    s3: "(case ?ex of
                   JArr existing \<Rightarrow>
                     andthen (dict_get cor ''insights'' (JArr [])) (\<lambda>insights.
                       Inr (JObj (AList.update ''correlation_insights'' insights
                              (AList.update ''correlations_found''
                                 (JArr (existing @ map JStr (take 3 descs))) c1))))
                 | _ \<Rightarrow> Inl TypeError) = Inr r"
    by (blast dest: andthen_Inr)
  then obtain existing where ex: "?ex = JArr existing"
    by (cases ?ex) simp_all
  with s3 obtain insights where
    "dict_get cor ''insights'' (JArr []) = Inr insights" and
    "r = JObj (AList.update ''correlation_insights'' insights
                              (AList.update ''correlations_found''
                                 (JArr (existing @ map JStr (take 3 descs))) c1))"
    by (auto dest!: andthen_Inr)
  with ex s0 i0 d0 show ?thesis by blast
qed

lemma found_after_severity:
  assumes "merge_severity (JObj base) (JObj sev) = Inr (JObj c1)"
  shows "lookup c1 ''correlations_found'' d = lookup base ''correlations_found'' d"
  using merge_severity_obj [OF assms, of "''correlations_found''"]
  by (simp add: lookup_def spec_after_severity_def risk_fields_def)

lemma join_spec_joined: "join sep ss = spec_joined sep ss"
  by (induction sep ss rule: join.induct) simp_all

lemma strings_of_names:
  "list_all is_str ps \<Longrightarrow> strings_of ps = Inr (spec_names (Some (JArr ps)))"
proof (induction ps)
  case Nil
  show ?case by (simp add: spec_names_def)
next
  case (Cons p ps)
  then obtain s where "p = JStr s" by (cases p) (simp_all add: is_str_def)
  with Cons show ?case by (simp add: spec_names_def)
qed

lemma correlation_desc_text:
  assumes "finding_ok corr"
  shows "correlation_desc py corr = Inr (spec_finding_text py corr)"
proof -
  from assms obtain kvs where c: "corr = JObj kvs"
    by (cases corr) (simp_all add: finding_ok_def)
  with assms obtain ps where p: "lookup kvs ''metrics_pair'' (JArr []) = JArr ps"
    and s: "list_all is_str ps"
    by (cases "lookup kvs ''metrics_pair'' (JArr [])") (simp_all add: finding_ok_def)
  have names: "spec_names (map_of kvs ''metrics_pair'') = spec_names (Some (JArr ps))"
    using p by (cases "map_of kvs ''metrics_pair''") (simp_all add: lookup_def spec_names_def)
  have expl: "format_value py (lookup kvs ''explanation''
        (JStr (''corr'' @ [CHR 0xE9] @ ''lation d'' @ [CHR 0xE9] @ ''tect'' @ [CHR 0xE9] @ ''e'')))
      = (case map_of kvs ''explanation'' of
               None \<Rightarrow> ''corr'' @ [CHR 0xE9] @ ''lation d'' @ [CHR 0xE9] @ ''tect'' @ [CHR 0xE9] @ ''e''
             | Some (JStr s) \<Rightarrow> s
             | Some v \<Rightarrow> str_json py v)"
    by (simp add: lookup_def format_value_def split: option.splits json.splits)
  show ?thesis
    unfolding c correlation_desc_def spec_finding_text_def json.case
    by (simp only: dict_get_def json.case p py_join_def py_iter_def andthen_simps
          strings_of_names [OF s] join_spec_joined names expl)
qed

lemma new_correlations_texts:
  "list_all finding_ok items \<Longrightarrow>
     new_correlations py items = Inr (map (spec_finding_text py) items)"
  by (induction items) (simp_all add: correlation_desc_text)

lemma merge_correlations_eq:
  assumes "findings_ok c1 cor"
  shows "merge_correlations py (JObj c1) (JObj cor)
     = Inr (JObj (AList.update ''correlation_insights'' (lookup cor ''insights'' (JArr []))
             (AList.update ''correlations_found''
                (JArr (spec_list (map_of c1 ''correlations_found'')
                       @ map (\<lambda>c. JStr (spec_finding_text py c))
                           (take 3 (spec_list (map_of cor ''strong_correlations'')))))
                c1)))"
proof -
  from assms obtain existing where e: "lookup c1 ''correlations_found'' (JArr []) = JArr existing"
    by (cases "lookup c1 ''correlations_found'' (JArr [])") (simp_all add: findings_ok_def is_list_def)
  from assms obtain items where i: "lookup cor ''strong_correlations'' (JArr []) = JArr items"
    and ok: "list_all finding_ok items"
    by (cases "lookup cor ''strong_correlations'' (JArr [])") (simp_all add: findings_ok_def)
  have e': "spec_list (map_of c1 ''correlations_found'') = existing"
    using e by (cases "map_of c1 ''correlations_found''") (simp_all add: lookup_def spec_list_def)
  have i': "spec_list (map_of cor ''strong_correlations'') = items"
    using i by (cases "map_of cor ''strong_correlations''") (simp_all add: lookup_def spec_list_def)
  show ?thesis
    by (simp add: merge_correlations_def dict_get_def py_iter_def e i e' i'
          new_correlations_texts [OF ok] take_map comp_def)
qed

lemma merge_correlations_spec:
  assumes "findings_ok c1 cor"
  shows "\<exists>out. merge_correlations py (JObj c1) (JObj cor) = Inr (JObj out)
           \<and> (\<forall>k. map_of out k = spec_after_correlations py (map_of c1) cor k)"
  by (simp add: merge_correlations_eq [OF assms] update_conv' spec_after_correlations_def
        lookup_def)

lemma severity_stage:
  "\<exists>c1. (case map_option JObj sev of
            None \<Rightarrow> Inr (JObj base)
          | Some sv \<Rightarrow> (if truthy sv then merge_severity (JObj base) sv else Inr (JObj base)))
          = Inr (JObj c1)
        \<and> map_of c1 = (case contribution sev of
                         None \<Rightarrow> map_of base
                       | Some s \<Rightarrow> spec_after_severity base s)
        \<and> (contribution sev = None \<longrightarrow> c1 = base)
        \<and> lookup c1 ''correlations_found'' (JArr []) = lookup base ''correlations_found'' (JArr [])"
proof (cases "contribution sev")
  case None
  then have "sev = None \<or> sev = Some []"
    by (cases sev) (simp_all add: contribution_def split: if_splits)
  with None show ?thesis by auto
next
  case (Some sv)
  then have sev: "sev = Some sv" and ne: "sv \<noteq> []"
    by (cases sev; simp add: contribution_def split: if_splits)+
  obtain c1 where c1: "merge_severity (JObj base) (JObj sv) = Inr (JObj c1)"
    by (simp add: merge_severity_eq)
  have "map_of c1 = spec_after_severity base sv"
    using merge_severity_obj [OF c1] by (intro ext)
  with c1 Some sev ne found_after_severity [OF c1] show ?thesis by simp
qed

lemma correlation_stage:
  assumes "case contribution cor of None \<Rightarrow> True | Some c \<Rightarrow> findings_ok c1 c"
  shows "\<exists>out. (case map_option JObj cor of
            None \<Rightarrow> Inr (JObj c1)
          | Some cv \<Rightarrow> (if truthy cv then merge_correlations py (JObj c1) cv else Inr (JObj c1)))
          = Inr (JObj out)
        \<and> map_of out = (case contribution cor of
                         None \<Rightarrow> map_of c1
                       | Some c \<Rightarrow> spec_after_correlations py (map_of c1) c)
        \<and> (contribution cor = None \<longrightarrow> out = c1)"
proof (cases "contribution cor")
  case None
  then have "cor = None \<or> cor = Some []"
    by (cases cor) (simp_all add: contribution_def split: if_splits)
  with None show ?thesis by auto
next
  case (Some cv)
  then have cor: "cor = Some cv" and ne: "cv \<noteq> []"
    by (cases cor; simp add: contribution_def split: if_splits)+
  from assms Some have "findings_ok c1 cv" by simp
  from merge_correlations_spec [OF this, where py = py] obtain out where
    "merge_correlations py (JObj c1) (JObj cv) = Inr (JObj out)"
    "\<And>k. map_of out k = spec_after_correlations py (map_of c1) cv k" by blast
  then have "merge_correlations py (JObj c1) (JObj cv) = Inr (JObj out)"
    "map_of out = spec_after_correlations py (map_of c1) cv" by (simp, intro ext, simp)
  with Some cor ne show ?thesis by simp
qed

lemma merge_not_dict:
  assumes "truthy s" and "\<not> is_dict s"
  shows "merge_severity (JObj base) s = Inl AttributeError"
    and "merge_correlations py (JObj c1) s = Inl AttributeError"
  using assms
  by (cases s; simp add: is_dict_def merge_severity_def merge_correlations_def dict_get_def)+



section \<open>Properties of the analyze operations and of the selector\<close>

lemma andthen_Inl: "(\<And>v. \<exists>e. f v = Inl e) \<Longrightarrow> \<exists>e. andthen m f = Inl e"
  by (cases m) simp_all

lemma andthen_Inl_first: "\<exists>e. m = Inl e \<Longrightarrow> \<exists>e. andthen m f = Inl e"
  by auto

lemma create_rejects_second:
  assumes "detections db mid \<noteq> None"
  shows "\<exists>e. objects_create py db mid flags summary severity method = Inl e"
  unfolding objects_create_def
  by (intro andthen_Inl) (simp add: assms)

lemma classic_reanalysis:
  assumes "detections db (metrics_id metrics) \<noteq> None"
  shows "analyze_metrics py thresholds db metrics = (None, db)"
proof -
  from create_rejects_second [OF assms] obtain e where
    "objects_create py db (metrics_id metrics)
       (map (\<lambda>(k, b). (k, JBool b)) (detect_anomalies thresholds metrics))
       (generate_summary py (detect_anomalies thresholds metrics) metrics)
       (JInt (calculate_severity_score (detect_anomalies thresholds metrics))) ''classic'' = Inl e"
    by blast
  then show ?thesis by (simp add: analyze_metrics_def Let_def)
qed

lemma llm_reanalysis:
  assumes "detections db (metrics_id metrics) \<noteq> None"
  shows "llm_analyze_metrics py available replies db metrics = (None, db)"
proof (cases "llm_detect_anomalies py available replies")
  case None
  then show ?thesis by (simp add: llm_analyze_metrics_def)
next
  case (Some llm_analysis)
  have "\<exists>e. andthen (convert_llm_to_model_format llm_analysis) (\<lambda>model_anomalies.
                   andthen (dict_get llm_analysis ''severity_score'' (JInt 5)) (\<lambda>severity.
                   andthen (generate_llm_summary llm_analysis) (\<lambda>summary.
                   andthen (objects_create py db (metrics_id metrics) model_anomalies summary
                              severity ''llm'') (\<lambda>created.
                     Inr (model_anomalies, created))))) = Inl e"
    by (rule andthen_Inl, rule andthen_Inl, rule andthen_Inl, rule andthen_Inl_first,
        rule create_rejects_second [OF assms])
  then obtain e where "andthen (convert_llm_to_model_format llm_analysis) (\<lambda>model_anomalies.
                   andthen (dict_get llm_analysis ''severity_score'' (JInt 5)) (\<lambda>severity.
                   andthen (generate_llm_summary llm_analysis) (\<lambda>summary.
                   andthen (objects_create py db (metrics_id metrics) model_anomalies summary
                              severity ''llm'') (\<lambda>created.
                     Inr (model_anomalies, created))))) = Inl e" by blast
  with Some show ?thesis by (simp add: llm_analyze_metrics_def)
qed

text \<open>
  C4, as stated, fails: on a snapshot that already has a result of the threshold detector,
  the selector's analyze under the same strategy returns no result instead of the
  existing one.
\<close>

theorem C4_counterexample:
  "detections db_analysed (metrics_id snapshot_example) = Some existing_example
   \<and> analysis_method existing_example = service_method (detection_service ''classic'')
   \<and> fst (service_analyze_metrics py_stub default_thresholds False replies_severity_15
             (detection_service ''classic'') db_analysed snapshot_example) = None"
proof -
  have d: "detections db_analysed (metrics_id snapshot_example) = Some existing_example"
    by (simp add: db_analysed_def snapshot_example_def)
  then have "detections db_analysed (metrics_id snapshot_example) \<noteq> None" by simp
  from classic_reanalysis [OF this] d show ?thesis
    by (simp add: service_analyze_metrics_def detection_service_def existing_example_def)
qed

text \<open>
  C4, amended. For every snapshot that already has an Anomaly Result, the selector's analyze
  returns no result and leaves the store as it was: the second create is rejected by the
  one-result-per-snapshot constraint, so no duplicate is made and the existing record is
  unchanged. The idempotent answer is given one level up: for a snapshot marked analysed
  whose result was produced by the requested strategy, the single-snapshot analysis of
  the HTTP layer returns the existing result without calling the selector and without
  changing the store.
\<close>

theorem C4_reanalysis_amended:
  "(detections db (metrics_id metrics) = Some existing \<longrightarrow>
      service_analyze_metrics py thresholds available replies service db metrics = (None, db))
   \<and> (metrics_rows db mid = Some stored \<and> analysis_completed stored
        \<and> detections db mid = Some existing \<and> analysis_method existing = method \<longrightarrow>
      analyze_single_metric py thresholds available replies db mid method
        = (AnalysisAlreadyExists existing, db))"
proof (intro conjI impI)
  assume "detections db (metrics_id metrics) = Some existing"
  then have "detections db (metrics_id metrics) \<noteq> None" by simp
  then show "service_analyze_metrics py thresholds available replies service db metrics = (None, db)"
    by (cases "service_detector service")
       (simp_all add: service_analyze_metrics_def classic_reanalysis llm_reanalysis)
next
  assume "metrics_rows db mid = Some stored \<and> analysis_completed stored
        \<and> detections db mid = Some existing \<and> analysis_method existing = method"
  then show "analyze_single_metric py thresholds available replies db mid method
        = (AnalysisAlreadyExists existing, db)"
    by (simp add: analyze_single_metric_def Let_def)
qed

theorem C4_reanalysis_witness:
  "service_analyze_metrics py_stub default_thresholds True replies_severity_15
      (detection_service ''llm'') db_analysed snapshot_example = (None, db_analysed)
   \<and> analyze_single_metric py_stub default_thresholds True replies_severity_15 db_analysed 1 ''classic''
      = (AnalysisAlreadyExists existing_example, db_analysed)"
proof -
  have d: "detections db_analysed (metrics_id snapshot_example) = Some existing_example"
    by (simp add: db_analysed_def snapshot_example_def)
  have v: "metrics_rows db_analysed 1
             = Some (snapshot_example\<lparr>is_anomalous := True, analysis_completed := True\<rparr>)
        \<and> analysis_completed (snapshot_example\<lparr>is_anomalous := True, analysis_completed := True\<rparr>)
        \<and> detections db_analysed 1 = Some existing_example
        \<and> analysis_method existing_example = ''classic''"
    by (simp add: db_analysed_def existing_example_def)
  from C4_reanalysis_amended [of db_analysed snapshot_example existing_example py_stub
      default_thresholds True replies_severity_15 "detection_service ''llm''" 1
      "snapshot_example\<lparr>is_anomalous := True, analysis_completed := True\<rparr>" "''classic''"] d v
  show ?thesis by blast
qed

text \<open>The threshold detector stores a severity score between 0 and 10.\<close>

lemma objects_create_severity:
  assumes "objects_create py db mid flags summary severity method = Inr (ad, db')"
  shows "integer_field py severity = Inr (severity_score ad)"
proof -
  from assms obtain c1 c2 c3 c4 c5 c6 c7 c8 c9 sev where s: "integer_field py severity = Inr sev"
    and fin: "(if metrics_rows db mid = None \<or> detections db mid \<noteq> None then Inl IntegrityError
       else
         (let ad = \<lparr>detection_metrics = mid,
               cpu_anomaly = c1, memory_anomaly = c2, latency_anomaly = c3, disk_anomaly = c4,
               io_anomaly = c5, error_rate_anomaly = c6, temperature_anomaly = c7,
               power_anomaly = c8, service_anomaly = c9,
               anomaly_summary = summary,
               severity_score = sev,
               analysis_method = method\<rparr>
          in Inr (ad, db\<lparr>detections := (detections db)(mid \<mapsto> ad)\<rparr>))) = Inr (ad, db')"
    unfolding objects_create_def
    by (elim andthen_Inr [THEN exE] conjE) blast
  from fin have "severity_score ad = sev"
    by (auto simp add: Let_def split: if_splits)
  with s show ?thesis by simp
qed

lemma classic_severity_in_range:
  assumes "analyze_metrics py thresholds db metrics = (Some ad, db')"
  shows "0 \<le> severity_score ad \<and> severity_score ad \<le> 10"
proof -
  let ?a = "detect_anomalies thresholds metrics"
  have d: "distinct (map fst ?a)" by (simp add: detect_anomalies_def Let_def)
  from score_eq_spec [OF d] spec_score_range [of ?a]
  have rng: "0 \<le> calculate_severity_score ?a \<and> calculate_severity_score ?a \<le> 10" by simp
  from assms obtain db1 where
    "objects_create py db (metrics_id metrics) (map (\<lambda>(k, b). (k, JBool b)) ?a)
          (generate_summary py ?a metrics) (JInt (calculate_severity_score ?a)) ''classic''
        = Inr (ad, db1)"
    by (auto simp add: analyze_metrics_def Let_def split: sum.splits prod.splits)
  from objects_create_severity [OF this] rng show ?thesis
    by (auto simp add: integer_field_def db_integer_def split: if_splits)
qed

text \<open>
  C2. The stored severity score should lie between 0 and 10 for both strategies. The AI
  path stores the score of the severity assessment as it came: with a reply whose
  severity score is 15, analyze returns and stores a result with severity 15.
\<close>

theorem C2_llm_severity_unclamped:
  "map_option severity_score
     (fst (llm_analyze_metrics py_stub True replies_severity_15 db_example snapshot_example))
     = Some 15
   \<and> map_option severity_score
     (detections (snd (llm_analyze_metrics py_stub True replies_severity_15 db_example
                        snapshot_example)) 1)
     = Some 15"
  by code_simp

text \<open>
  C3. The creation of the result and the update of the snapshot's two flags should be one
  unit. The AI path creates the result first and saves the flags afterwards, outside any
  transaction: with a reply whose criticality flag is the text \<open>true\<close>, the save is refused
  when the flag is prepared as a boolean, analyze returns nothing, and the store holds
  the new result while the snapshot is still marked not analysed and not anomalous. The
  caller sees it: a later analysis of that snapshot fails, because the result exists.
\<close>

theorem C3_result_without_flags:
  "fst (llm_analyze_metrics py_stub True replies_critical_text db_example snapshot_example) = None
   \<and> map_option analysis_method (detections db_after_failed_save 1) = Some ''llm''
   \<and> map_option analysis_completed (metrics_rows db_after_failed_save 1) = Some False
   \<and> map_option is_anomalous (metrics_rows db_after_failed_save 1) = Some False
   \<and> fst (analyze_single_metric py_stub default_thresholds True replies_critical_text
            db_after_failed_save 1 ''classic'') = AnalysisFailed"
proof -
  have a: "fst (llm_analyze_metrics py_stub True replies_critical_text db_example snapshot_example) = None"
    by code_simp
  have b: "map_option analysis_method (detections db_after_failed_save 1) = Some ''llm''"
    by code_simp
  have c: "map_option analysis_completed (metrics_rows db_after_failed_save 1) = Some False"
    by code_simp
  have d: "map_option is_anomalous (metrics_rows db_after_failed_save 1) = Some False"
    by code_simp
  have row: "metrics_rows db_after_failed_save 1 = Some snapshot_example"
    by code_simp
  from b have det: "detections db_after_failed_save (metrics_id snapshot_example) \<noteq> None"
    by (auto simp add: snapshot_example_def)
  have "analyze_single_metric py_stub default_thresholds True replies_critical_text
            db_after_failed_save 1 ''classic'' = (AnalysisFailed, db_after_failed_save)"
    using row classic_reanalysis [OF det]
    by (simp add: analyze_single_metric_def Let_def service_analyze_metrics_def detection_service_def
          snapshot_example_def)
  with a b c d show ?thesis by simp
qed

text \<open>
  An analysis requested for an id that is not stored is answered with the internal error
  reply.
\<close>

lemma missing_snapshot_internal_error:
  "fst (analyze_single_metric py_stub default_thresholds True replies_severity_15 db_example 2
          ''classic'') = InternalError"
  by code_simp
section \<open>Properties of the report priority\<close>

lemma priority_idx_less: "priority_idx p < 4"
  by (simp add: priority_idx_def priority_order_def)

lemma priority_idx_nth: "k < 4 \<Longrightarrow> priority_idx (priority_order ! k) = k"
proof -
  assume "k < 4"
  then have "k = 0 \<or> k = 1 \<or> k = 2 \<or> k = 3" by arith
  then show ?thesis by (auto simp add: priority_idx_def priority_order_def)
qed

lemma nth_priority_order: "k < 4 \<Longrightarrow> priority_order ! k \<in> set priority_order"
  by (rule nth_mem) (simp add: priority_order_def)

lemma update_priority_idx:
  "priority_idx (update_priority current new) = max (priority_idx current) (priority_idx new)"
  "update_priority current new \<in> set priority_order"
proof -
  have "max (priority_idx current) (priority_idx new) < 4"
    using priority_idx_less [of current] priority_idx_less [of new] by simp
  then show "priority_idx (update_priority current new) = max (priority_idx current) (priority_idx new)"
    and "update_priority current new \<in> set priority_order"
    by (simp_all add: update_priority_def Let_def priority_idx_nth nth_priority_order)
qed

lemma add_rec_ok: "rules_state_ok st \<Longrightarrow> rules_state_ok (add_rec r st)"
  by (cases r)
     (simp_all add: rules_state_ok_def add_rec_def max_priority_of_def update_priority_idx
        max.commute)

lemma fired_rules_ok: "rules_state_ok (fired_rules py m)"
  unfolding fired_rules_def
  by (intro add_rec_ok) (simp add: rules_state_ok_def max_priority_of_def priority_order_def priority_idx_def)

lemma classic_priority_is_max:
  "priority_level (generate_recommendations py m s) \<in> set priority_order
   \<and> priority_idx (priority_level (generate_recommendations py m s))
       = max_priority_of (recommendations (generate_recommendations py m s))"
proof -
  have ok: "rules_state_ok (fired_rules py m)" by (rule fired_rules_ok)
  have "max_priority_of [monitoring_action] = 0"
    by (simp add: max_priority_of_def monitoring_action_def priority_idx_def priority_order_def)
  moreover have "max_priority_of [] = 0" by (simp add: max_priority_of_def)
  ultimately show ?thesis using ok
    by (auto simp add: generate_recommendations_def build_response_def Let_def rules_state_ok_def)
qed

lemma action_json_priority: "action_priority_idx (action_json a) = priority_idx (priority a)"
  by (simp add: action_priority_idx_def action_json_def)

lemma classic_report_max:
  "max_action_priority (classic_report mid r analysis method) = max_priority_of (recommendations r)"
  by (simp add: max_action_priority_def report_actions_def classic_report_def max_priority_of_def
        comp_def action_json_priority)

lemma upsert_classic:
  "update_or_create py db reports mid (response_json r) method
     = (if metrics_rows db mid = None then Inl IntegrityError
        else Inr (classic_report mid r (detailed_analysis r) method,
                  reports(mid \<mapsto> classic_report mid r (detailed_analysis r) method)))"
  by (simp add: update_or_create_def response_json_def item_def char_field_def classic_report_def Let_def)

lemma upsert_fallback:
  "update_or_create py db reports mid
       (AList.update ''detailed_analysis'' (JStr analysis)
          (AList.update ''analysis_type'' (JStr ''llm_fallback'') (response_json r))) method
     = (if metrics_rows db mid = None then Inl IntegrityError
        else Inr (classic_report mid r analysis method,
                  reports(mid \<mapsto> classic_report mid r analysis method)))"
  by (simp add: update_or_create_def response_json_def item_def char_field_def classic_report_def Let_def)

lemma classic_report_is_max:
  "priority_is_max (classic_report mid (generate_recommendations py m s) analysis method)"
  using classic_priority_is_max [of py m s]
  by (simp add: priority_is_max_def classic_report_max) (simp add: classic_report_def)

lemma generate_report_eq:
  "generate_report py db reports m
     = (if metrics_rows db (metrics_id m) = None then (None, reports)
        else (let r = generate_recommendations py m (anomalies_summary_of db m);
                  report = classic_report (metrics_id m) r (detailed_analysis r) ''classic''
              in (Some report, reports(metrics_id m \<mapsto> report))))"
  by (simp add: generate_report_def upsert_classic Let_def)

lemma fallback_report_eq:
  "(case update_or_create py db reports (metrics_id m)
           (get_fallback_recommendations py m s) ''llm'' of
      Inl e \<Rightarrow> (None, reports)
    | Inr (report, reports') \<Rightarrow> (Some report, reports'))
     = (if metrics_rows db (metrics_id m) = None then (None, reports)
        else (let r = generate_recommendations py m s;
                  report = classic_report (metrics_id m) r
                     (detailed_analysis r @ '' (Analyse LLM temporairement indisponible)'') ''llm''
              in (Some report, reports(metrics_id m \<mapsto> report))))"
  by (simp add: get_fallback_recommendations_def upsert_fallback Let_def)

lemma fill_defaults:
  "map_of (fold (\<lambda>field r. if map_of r field = None then AList.update field (d field) r else r)
             fs kvs) k
     = (case map_of kvs k of
          Some v \<Rightarrow> Some v
        | None \<Rightarrow> (if k \<in> set fs then Some (d k) else None))"
proof (induction fs arbitrary: kvs)
  case Nil
  show ?case by (simp split: option.splits)
next
  case (Cons f fs)
  show ?case
    by (auto simp add: Cons.IH update_conv' split: option.splits)
qed

lemma validate_eq:
  "validate_and_enrich_response (JObj kvs) m
     = andthen (estimate_confidence (prepared_response kvs m)) (\<lambda>confidence.
         Inr (checked_priority
                (AList.update ''llm_confidence'' (JFloat confidence) (prepared_response kvs m))))"
  by (simp only: validate_and_enrich_response_def json.case prepared_response_def
        checked_priority_def Let_def)

lemma prepared_priority:
  "map_of (prepared_response kvs m) ''priority_level''
     = (case map_of kvs ''priority_level'' of Some v \<Rightarrow> Some v | None \<Rightarrow> Some (JStr ''medium''))"
proof -
  let ?r1 = "fold (\<lambda>field r. if map_of r field = None
                                    then AList.update field (get_default_value field) r else r)
                      required_fields kvs"
  have p1: "map_of ?r1 ''priority_level''
      = (case map_of kvs ''priority_level'' of Some v \<Rightarrow> Some v | None \<Rightarrow> Some (JStr ''medium''))"
    by (simp only: fill_defaults)
       (simp add: required_fields_def get_default_value_def lookup_def split: option.splits)
  show ?thesis
    unfolding prepared_response_def Let_def
    by (cases "lookup ?r1 ''recommendations'' JNull")
       (simp_all only: json.case update_conv' p1 fun_upd_apply, simp_all only: p1 list.inject char.inject simp_thms if_False)
qed

lemma checked_priority_level:
  "map_of r4 ''priority_level'' = Some v \<Longrightarrow>
     map_of (checked_priority r4) ''priority_level''
       = Some (JStr (case v of JStr p \<Rightarrow> (if p \<in> set valid_priorities then p else ''medium'')
                     | _ \<Rightarrow> ''medium''))"
  by (cases v) (simp_all add: checked_priority_def lookup_def is_valid_priority_def update_conv')

lemma validated_priority:
  assumes "validate_and_enrich_response (JObj kvs) m = Inr r"
  shows "map_of r ''priority_level'' = Some (JStr (spec_llm_priority kvs))"
proof -
  from assms obtain confidence where
    r: "r = checked_priority
              (AList.update ''llm_confidence'' (JFloat confidence) (prepared_response kvs m))"
    unfolding validate_eq by (auto dest!: andthen_Inr)
  have "map_of (AList.update ''llm_confidence'' (JFloat confidence) (prepared_response kvs m))
          ''priority_level''
        = Some (case map_of kvs ''priority_level'' of Some v \<Rightarrow> v | None \<Rightarrow> JStr ''medium'')"
    by (simp add: update_conv' prepared_priority split: option.splits)
  from checked_priority_level [OF this] r show ?thesis
    by (simp add: spec_llm_priority_def valid_priorities_def split: option.splits json.splits)
qed

lemma enrich_keeps_priority:
  "map_of (enrich_recommendations available focused recs m) ''priority_level''
     = map_of recs ''priority_level''"
proof -
  have keep: "map_of (AList.update ''recommendations'' x recs) ''priority_level''
                = map_of recs ''priority_level''" for x
    by (simp add: update_conv')
  have keep2: "map_of (AList.update ''detailed_analysis'' y (AList.update ''recommendations'' x recs))
                 ''priority_level'' = map_of recs ''priority_level''" for x y
    by (simp add: update_conv')
  show ?thesis
    unfolding enrich_recommendations_def Let_def
    by (simp add: keep keep2 split: list.splits option.splits json.splits sum.splits prod.splits)
qed

lemma update_or_create_priority:
  assumes "update_or_create py db reports mid data method = Inr (report, reports')"
    and "map_of data ''priority_level'' = Some (JStr p)"
  shows "report_priority_level report = p"
proof -
  from assms(1) obtain es da recs pl ei tf es' da' pl' ei' tf' where
    pl: "item data ''priority_level'' = Inr pl" and pl': "char_field py pl = Inr pl'"
    and fin: "(if metrics_rows db mid = None then Inl IntegrityError
       else
         (let report = \<lparr>report_metrics = mid,
                         report_executive_summary = es',
                         report_detailed_analysis = da',
                         recommendations_json = JObj [(''actions'', recs)],
                         report_priority_level = pl',
                         report_estimated_impact = ei',
                         report_implementation_timeframe = tf',
                         generation_method = method\<rparr>
          in Inr (report, reports(mid \<mapsto> report)))) = Inr (report, reports')"
    unfolding update_or_create_def
    by (elim andthen_Inr [THEN exE] conjE) blast
  from pl assms(2) have "pl = JStr p" by (simp add: item_def)
  with pl' have "pl' = p" by (simp add: char_field_def)
  with fin show ?thesis by (auto simp add: Let_def split: if_splits)
qed

lemma update_nonempty: "AList.update k v al \<noteq> []"
  by (cases al) auto

lemma checked_nonempty: "checked_priority (AList.update k v al) \<noteq> []"
  by (simp add: checked_priority_def update_nonempty)

lemma llm_report_priority:
  assumes "engine_generate_recommendations available (Some (JObj kvs)) m \<noteq> None"
    and "llm_generate_report py available (Some (JObj kvs)) focused db reports m
           = (Some report, reports')"
  shows "report_priority_level report = spec_llm_priority kvs"
proof -
  from assms(1) have av: available
    by (auto simp add: engine_generate_recommendations_def split: if_splits)
  from assms(1) av obtain r where v: "validate_and_enrich_response (JObj kvs) m = Inr r"
    and e: "engine_generate_recommendations available (Some (JObj kvs)) m = Some r"
    by (auto simp add: engine_generate_recommendations_def split: if_splits sum.splits)
  from v obtain confidence where
    "r = checked_priority
              (AList.update ''llm_confidence'' (JFloat confidence) (prepared_response kvs m))"
    unfolding validate_eq by (auto dest!: andthen_Inr)
  then have ne: "r \<noteq> []" by (simp add: checked_nonempty)
  let ?data = "enrich_recommendations available focused r m"
  have data: "llm_generate_recommendations py available (Some (JObj kvs)) focused m
                (anomalies_summary_of db m) = ?data"
    using av e ne by (simp add: llm_generate_recommendations_def)
  have pl: "map_of ?data ''priority_level'' = Some (JStr (spec_llm_priority kvs))"
    by (simp add: enrich_keeps_priority validated_priority [OF v])
  from assms(2) data obtain "update_or_create py db reports (metrics_id m) ?data ''llm''
      = Inr (report, reports')"
    by (auto simp add: llm_generate_report_def Let_def split: sum.splits)
  from update_or_create_priority [OF this pl] show ?thesis .
qed

lemma llm_fallback_report:
  assumes "engine_generate_recommendations available primary m = None"
    and "llm_generate_report py available primary focused db reports m = (Some report, reports')"
  shows "priority_is_max report"
proof -
  have "llm_generate_recommendations py available primary focused m (anomalies_summary_of db m)
          = get_fallback_recommendations py m (anomalies_summary_of db m)"
    using assms(1) by (cases available) (simp_all add: llm_generate_recommendations_def)
  with assms(2) have "(case update_or_create py db reports (metrics_id m)
           (get_fallback_recommendations py m (anomalies_summary_of db m)) ''llm'' of
      Inl e \<Rightarrow> (None, reports)
    | Inr (report, reports') \<Rightarrow> (Some report, reports')) = (Some report, reports')"
    by (simp add: llm_generate_report_def Let_def)
  then show ?thesis
    unfolding fallback_report_eq
    by (auto simp add: Let_def classic_report_is_max split: if_splits)
qed

lemma classic_report_produced:
  assumes "generate_report py db reports m = (Some report, reports')"
  shows "priority_is_max report"
  using assms unfolding generate_report_eq
  by (auto simp add: Let_def classic_report_is_max split: if_splits)

text \<open>
  C7, as stated, fails on the AI path: a reply that states the overall priority low and
  contains a critical action gives a report of priority low with a critical action.
\<close>

theorem C7_counterexample:
  "map_option report_priority_level
     (fst (llm_generate_report py_stub True (Some (JObj reply_low_with_critical)) None db_example
             Map.empty snapshot_example)) = Some ''low''
   \<and> map_option max_action_priority
     (fst (llm_generate_report py_stub True (Some (JObj reply_low_with_critical)) None db_example
             Map.empty snapshot_example)) = Some (priority_idx ''critical'')
   \<and> priority_idx ''low'' < priority_idx ''critical''"
  by code_simp

text \<open>
  C7, amended. For every report produced by the rule-based generator, and for every report
  the AI generator produces through its fallback to the rules, the overall priority is
  one of the four levels and equals the maximum of the actions' priorities under low,
  medium, high, critical; the rule-based generator produces a report for every stored
  snapshot. A report produced from the model's reply carries the overall priority the
  model stated, or medium when that is not one of the four levels: it is not recomputed
  from the actions, and the focused enrichment appends actions without changing it.
\<close>

theorem C7_priority_amended:
  "(generate_report py db reports m = (Some report, reports') \<longrightarrow> priority_is_max report)
   \<and> (engine_generate_recommendations available primary m = None \<longrightarrow>
        llm_generate_report py available primary focused db reports m = (Some report, reports')
        \<longrightarrow> priority_is_max report)
   \<and> (engine_generate_recommendations available (Some (JObj kvs)) m \<noteq> None \<longrightarrow>
        llm_generate_report py available (Some (JObj kvs)) focused db reports m
          = (Some report, reports')
        \<longrightarrow> report_priority_level report = spec_llm_priority kvs)
   \<and> (metrics_rows db (metrics_id m) \<noteq> None \<longrightarrow> fst (generate_report py db reports m) \<noteq> None)"
  using classic_report_produced llm_fallback_report llm_report_priority
  by (auto simp add: generate_report_eq Let_def)

theorem C7_priority_witness:
  "map_option priority_is_max
     (fst (generate_report py_stub db_example Map.empty snapshot_example)) = Some True
   \<and> map_option priority_is_max
     (fst (llm_generate_report py_stub False None None db_example Map.empty snapshot_example))
       = Some True
   \<and> map_option report_priority_level
     (fst (llm_generate_report py_stub True (Some (JObj reply_low_with_critical)) None db_example
             Map.empty snapshot_example)) = Some (spec_llm_priority reply_low_with_critical)"
proof -
  obtain r1 t1 where g1: "generate_report py_stub db_example Map.empty snapshot_example = (r1, t1)"
    by (cases "generate_report py_stub db_example Map.empty snapshot_example")
  have row: "metrics_rows db_example (metrics_id snapshot_example) \<noteq> None"
    by (simp add: db_example_def snapshot_example_def)
  with g1 C7_priority_amended [of py_stub db_example Map.empty snapshot_example]
  obtain report1 where r1: "r1 = Some report1" by fastforce
  with g1 C7_priority_amended [of py_stub db_example Map.empty snapshot_example report1 t1]
  have w1: "priority_is_max report1" by blast
  obtain r2 t2 where g2: "llm_generate_report py_stub False None None db_example Map.empty
      snapshot_example = (r2, t2)"
    by (cases "llm_generate_report py_stub False None None db_example Map.empty snapshot_example")
  have "fst (llm_generate_report py_stub False None None db_example Map.empty snapshot_example)
          \<noteq> None" by code_simp
  with g2 obtain report2 where r2: "r2 = Some report2" by auto
  have e2: "engine_generate_recommendations False None snapshot_example = None"
    by (simp add: engine_generate_recommendations_def)
  from g2 r2 e2 C7_priority_amended [of py_stub db_example Map.empty snapshot_example report2 t2
      False None None]
  have w2: "priority_is_max report2" by blast
  obtain r3 t3 where g3: "llm_generate_report py_stub True (Some (JObj reply_low_with_critical))
      None db_example Map.empty snapshot_example = (r3, t3)"
    by (cases "llm_generate_report py_stub True (Some (JObj reply_low_with_critical))
      None db_example Map.empty snapshot_example")
  have "fst (llm_generate_report py_stub True (Some (JObj reply_low_with_critical))
      None db_example Map.empty snapshot_example) \<noteq> None" by code_simp
  with g3 obtain report3 where r3: "r3 = Some report3" by auto
  have e3: "engine_generate_recommendations True (Some (JObj reply_low_with_critical))
      snapshot_example \<noteq> None" by code_simp
  from g3 r3 e3 C7_priority_amended [of py_stub db_example Map.empty snapshot_example report3 t3
      True _ None reply_low_with_critical]
  have w3: "report_priority_level report3 = spec_llm_priority reply_low_with_critical" by blast
  from g1 r1 w1 g2 r2 w2 g3 r3 w3 show ?thesis by simp
qed

end
